theory Spec2Isabelle
  imports Complex_Main "HOL-Library.AList"
begin

section \<open>JavaScript values\<close>

text \<open>
  The values a pattern's \<^verbatim>\<open>data: Record<string, any>\<close> can hold. An object is the list of
  its own properties in enumeration order (keys are distinct). Numbers are modelled as
  integers: the timestamps, counts and lengths the store computes with are integers, and
  JavaScript prints an integer of that size in plain decimal. A \<open>char\<close> stands for the
  UTF-16 code unit of the same number, so strings range over the code units below 256.
\<close>

datatype json =
    JNull
  | JBool bool
  | JNum int
  | JStr string
  | JArr "json list"
  | JObj "(string \<times> json) list"

type_synonym jobject = "(string \<times> json) list"

definition digit_char :: "int \<Rightarrow> char" where
  "digit_char d = (if d < 10 then char_of (48 + d) else char_of (87 + d))"

text \<open>\<^verbatim>\<open>Number.prototype.toString(radix)\<close> on a non-negative integer.\<close>

function to_radix :: "int \<Rightarrow> int \<Rightarrow> string" where
  "to_radix b n =
     (if n < b \<or> b < 2 then [digit_char n]
      else to_radix b (n div b) @ [digit_char (n mod b)])"
  by pat_completeness auto
termination
  by (relation "measure (\<lambda>(b, n). nat n)") (auto intro!: int_div_less_self)

declare to_radix.simps [simp del]

definition number_to_string :: "int \<Rightarrow> string" where
  "number_to_string n = (if n < 0 then ''-'' @ to_radix 10 (- n) else to_radix 10 n)"

text \<open>\<^verbatim>\<open>JSON.stringify\<close>: string quoting, then the value printer (no indentation).\<close>

definition json_escape :: "char \<Rightarrow> string" where
  "json_escape c =
     (let n = (of_char c :: int) in
      if n = 0x22 then [CHR 0x5C, CHR 0x22]
      else if n = 0x5C then [CHR 0x5C, CHR 0x5C]
      else if n = 8 then [CHR 0x5C, CHR ''b'']
      else if n = 12 then [CHR 0x5C, CHR ''f'']
      else if n = 10 then [CHR 0x5C, CHR ''n'']
      else if n = 13 then [CHR 0x5C, CHR ''r'']
      else if n = 9 then [CHR 0x5C, CHR ''t'']
      else if n < 32 then
        [CHR 0x5C, CHR ''u'', CHR ''0'', CHR ''0'', digit_char (n div 16), digit_char (n mod 16)]
      else [c])"

definition json_quote :: "string \<Rightarrow> string" where
  "json_quote s = [CHR 0x22] @ concat (map json_escape s) @ [CHR 0x22]"

fun join :: "string \<Rightarrow> string list \<Rightarrow> string" where
  "join sep [] = []"
| "join sep [x] = x"
| "join sep (x # y # ys) = x @ sep @ join sep (y # ys)"

fun stringify :: "json \<Rightarrow> string" where
  "stringify JNull = ''null''"
| "stringify (JBool b) = (if b then ''true'' else ''false'')"
| "stringify (JNum n) = number_to_string n"
| "stringify (JStr s) = json_quote s"
| "stringify (JArr xs) = ''['' @ join '','' (map stringify xs) @ '']''"
| "stringify (JObj kvs) =
     ''{'' @ join '','' (map (\<lambda>kv. json_quote (fst kv) @ '':'' @ stringify (snd kv)) kvs) @ ''}''"

section \<open>Pattern storage: data model\<close>

record PatternMetadata =
  confidence :: int
  frequency :: int
  lastSeen :: int
  tags :: "string list"
  source :: string

record Pattern =
  p_id :: string
  p_type :: string
  p_data :: jobject
  p_metadata :: PatternMetadata
  p_createdAt :: int
  p_updatedAt :: int
  p_expiresAt :: "int option"

text \<open>\<^verbatim>\<open>Omit<Pattern, 'id' | 'createdAt' | 'updatedAt'>\<close>: what \<^verbatim>\<open>savePattern\<close> receives.\<close>

record PatternCandidate =
  c_type :: string
  c_data :: jobject
  c_metadata :: PatternMetadata
  c_expiresAt :: "int option"

record PatternVersion =
  v_patternId :: string
  v_version :: nat
  v_data :: jobject
  v_metadata :: PatternMetadata
  v_timestamp :: int

text \<open>\<^verbatim>\<open>Partial<PatternMetadata>\<close> and \<^verbatim>\<open>PatternUpdate\<close>: every field optional.\<close>

record PartialMetadata =
  pm_confidence :: "int option"
  pm_frequency :: "int option"
  pm_lastSeen :: "int option"
  pm_tags :: "string list option"
  pm_source :: "string option"

record PatternUpdate =
  u_data :: "jobject option"
  u_metadata :: "PartialMetadata option"
  u_expiresAt :: "int option"

record PatternQuery =
  q_type :: "string option"
  q_tags :: "string list option"
  q_minConfidence :: "int option"
  q_minFrequency :: "int option"
  q_createdAfter :: "int option"
  q_createdBefore :: "int option"
  q_notExpired :: "bool option"

record PatternStorageConfig =
  dataDir :: string
  maxVersions :: int
  defaultExpirationDays :: int

record PartialStorageConfig =
  pc_dataDir :: "string option"
  pc_maxVersions :: "int option"
  pc_defaultExpirationDays :: "int option"

text \<open>
  The two \<^verbatim>\<open>Map\<close>s of the class are association lists in insertion order:
  \<^const>\<open>AList.update\<close> is \<^verbatim>\<open>Map.set\<close> (an existing key keeps its place, a new one
  goes last), \<^const>\<open>AList.delete\<close> is \<^verbatim>\<open>Map.delete\<close>, \<^const>\<open>map_of\<close> is
  \<^verbatim>\<open>Map.get\<close>.
\<close>

record PatternStorage =
  ps_config :: PatternStorageConfig
  ps_patterns :: "(string \<times> Pattern) list"
  ps_versions :: "(string \<times> PatternVersion list) list"
  ps_initialized :: bool

datatype component = PatternStorageC | KnowledgeBaseC | LearningModelC

text \<open>
  The errors thrown: the \<^verbatim>\<open>Error\<close> of a component's \<^verbatim>\<open>ensureInitialized\<close>, and an error
  that comes out of TensorFlow.
\<close>

datatype error =
    NotInitialized component
  | TfError

text \<open>The constructor: \<^verbatim>\<open>config?.x || default\<close> replaces a missing, empty or zero value.\<close>

definition new_PatternStorage :: "PartialStorageConfig \<Rightarrow> PatternStorage" where
  "new_PatternStorage cfg =
     \<lparr> ps_config =
         \<lparr> dataDir = (case pc_dataDir cfg of
                        Some d \<Rightarrow> if d = [] then ''./data/patterns'' else d
                      | None \<Rightarrow> ''./data/patterns''),
           maxVersions = (case pc_maxVersions cfg of
                            Some n \<Rightarrow> if n = 0 then 10 else n
                          | None \<Rightarrow> 10),
           defaultExpirationDays = (case pc_defaultExpirationDays cfg of
                                      Some n \<Rightarrow> if n = 0 then 30 else n
                                    | None \<Rightarrow> 30) \<rparr>,
       ps_patterns = [],
       ps_versions = [],
       ps_initialized = False \<rparr>"

definition default_config :: PartialStorageConfig where
  "default_config = \<lparr> pc_dataDir = None, pc_maxVersions = None, pc_defaultExpirationDays = None \<rparr>"

section \<open>Pattern ids\<close>

text \<open>
  \<^verbatim>\<open>hashData\<close>: the 32-bit rolling hash of \<^verbatim>\<open>JSON.stringify(data)\<close>. The bitwise
  operators \<^verbatim>\<open><<\<close> and \<^verbatim>\<open>&\<close> convert their result to a signed 32-bit integer
  (\<open>to_int32\<close>); the subtraction and addition between them are exact.
  \<^verbatim>\<open>Math.abs(hash).toString(16)\<close> prints the result.
\<close>

definition to_int32 :: "int \<Rightarrow> int" where
  "to_int32 x = (x + 2147483648) mod 4294967296 - 2147483648"

definition hash_step :: "int \<Rightarrow> char \<Rightarrow> int" where
  "hash_step h c = to_int32 ((to_int32 (h * 32) - h) + of_char c)"

definition hashData :: "json \<Rightarrow> string" where
  "hashData d = to_radix 16 \<bar>foldl hash_step 0 (stringify d)\<bar>"

definition metadata_json :: "PatternMetadata \<Rightarrow> json" where
  "metadata_json m =
     JObj [(''confidence'', JNum (confidence m)),
           (''frequency'', JNum (frequency m)),
           (''lastSeen'', JNum (lastSeen m)),
           (''tags'', JArr (map JStr (tags m))),
           (''source'', JStr (source m))]"

text \<open>
  The candidate object as \<^verbatim>\<open>JSON.stringify\<close> sees it, with its properties in the order
  of the \<^verbatim>\<open>Pattern\<close> interface (the order every caller in the repository writes them);
  an absent \<^verbatim>\<open>expiresAt\<close> is no property.
\<close>

definition candidate_json :: "PatternCandidate \<Rightarrow> json" where
  "candidate_json c =
     JObj ([(''type'', JStr (c_type c)),
            (''data'', JObj (c_data c)),
            (''metadata'', metadata_json (c_metadata c))]
           @ (case c_expiresAt c of None \<Rightarrow> [] | Some e \<Rightarrow> [(''expiresAt'', JNum e)]))"

text \<open>\<^verbatim>\<open>generatePatternId\<close> hashes the whole candidate: \<^verbatim>\<open>this.hashData(pattern)\<close>.\<close>

definition generatePatternId :: "PatternCandidate \<Rightarrow> string" where
  "generatePatternId c = c_type c @ ''-'' @ hashData (candidate_json c)"

section \<open>Pattern storage: operations\<close>

text \<open>
  Every operation takes the store and returns the new store with its result; a thrown
  \<^verbatim>\<open>Error\<close> is \<open>Inl\<close>. A reading of \<^verbatim>\<open>Date.now()\<close> is an argument, one per call in the
  source. The JSON files under \<^verbatim>\<open>dataDir\<close> mirror the two maps and are read back only by
  \<^verbatim>\<open>initialize\<close>, which receives their content as an argument; writing them is not
  modelled.
\<close>

definition expired :: "int \<Rightarrow> Pattern \<Rightarrow> bool" where
  \<comment> \<open>\<^verbatim>\<open>pattern.expiresAt && now > pattern.expiresAt\<close>: an absent or zero value is falsy\<close>
  "expired now p = (case p_expiresAt p of None \<Rightarrow> False | Some e \<Rightarrow> e \<noteq> 0 \<and> now > e)"

definition createVersion :: "int \<Rightarrow> Pattern \<Rightarrow> PatternStorage \<Rightarrow> PatternStorage" where
  "createVersion tnow pattern s =
     (let versions = (case map_of (ps_versions s) (p_id pattern) of Some vs \<Rightarrow> vs | None \<Rightarrow> []);
          nextVersion = length versions + 1;
          version = \<lparr> v_patternId = p_id pattern, v_version = nextVersion,
                      v_data = p_data pattern, v_metadata = p_metadata pattern,
                      v_timestamp = tnow \<rparr>;
          pushed = versions @ [version];
          trimmed = (if int (length pushed) > maxVersions (ps_config s) then tl pushed else pushed)
      in s\<lparr> ps_versions := AList.update (p_id pattern) trimmed (ps_versions s) \<rparr>)"

definition savePattern ::
  "int \<Rightarrow> int \<Rightarrow> PatternCandidate \<Rightarrow> PatternStorage \<Rightarrow> error + (Pattern \<times> PatternStorage)" where
  "savePattern now vnow pattern s =
     (if \<not> ps_initialized s then Inl (NotInitialized PatternStorageC)
      else
        let pid = generatePatternId pattern;
            expiresAt = (case c_expiresAt pattern of
                           Some e \<Rightarrow> e
                         | None \<Rightarrow> now + defaultExpirationDays (ps_config s) * 24 * 60 * 60 * 1000);
            newPattern = \<lparr> p_id = pid, p_type = c_type pattern, p_data = c_data pattern,
                           p_metadata = c_metadata pattern, p_createdAt = now,
                           p_updatedAt = now, p_expiresAt = Some expiresAt \<rparr>;
            s1 = (case map_of (ps_patterns s) pid of
                    Some existing \<Rightarrow> createVersion vnow existing s
                  | None \<Rightarrow> s)
        in Inr (newPattern, s1\<lparr> ps_patterns := AList.update pid newPattern (ps_patterns s1) \<rparr>))"

definition deletePattern :: "string \<Rightarrow> PatternStorage \<Rightarrow> error + (bool \<times> PatternStorage)" where
  "deletePattern pid s =
     (if \<not> ps_initialized s then Inl (NotInitialized PatternStorageC)
      else if map_of (ps_patterns s) pid = None then Inr (False, s)
      else Inr (True, s\<lparr> ps_patterns := AList.delete pid (ps_patterns s),
                           ps_versions := AList.delete pid (ps_versions s) \<rparr>))"

definition getPattern ::
  "int \<Rightarrow> string \<Rightarrow> PatternStorage \<Rightarrow> error + (Pattern option \<times> PatternStorage)" where
  "getPattern now pid s =
     (if \<not> ps_initialized s then Inl (NotInitialized PatternStorageC)
      else case map_of (ps_patterns s) pid of
        None \<Rightarrow> Inr (None, s)
      | Some pattern \<Rightarrow>
          if expired now pattern then
            (case deletePattern pid s of
               Inl e \<Rightarrow> Inl e
             | Inr (_, s') \<Rightarrow> Inr (None, s'))
          else Inr (Some pattern, s))"

definition merge_metadata :: "PatternMetadata \<Rightarrow> PartialMetadata option \<Rightarrow> PatternMetadata" where
  \<comment> \<open>\<^verbatim>\<open>{ ...pattern.metadata, ...update.metadata }\<close>\<close>
  "merge_metadata m upd =
     (case upd of
        None \<Rightarrow> m
      | Some u \<Rightarrow>
          \<lparr> confidence = (case pm_confidence u of Some x \<Rightarrow> x | None \<Rightarrow> confidence m),
            frequency = (case pm_frequency u of Some x \<Rightarrow> x | None \<Rightarrow> frequency m),
            lastSeen = (case pm_lastSeen u of Some x \<Rightarrow> x | None \<Rightarrow> lastSeen m),
            tags = (case pm_tags u of Some x \<Rightarrow> x | None \<Rightarrow> tags m),
            source = (case pm_source u of Some x \<Rightarrow> x | None \<Rightarrow> source m) \<rparr>)"

definition updatePattern ::
  "int \<Rightarrow> int \<Rightarrow> string \<Rightarrow> PatternUpdate \<Rightarrow> PatternStorage
     \<Rightarrow> error + (Pattern option \<times> PatternStorage)" where
  "updatePattern vnow unow pid update s =
     (if \<not> ps_initialized s then Inl (NotInitialized PatternStorageC)
      else case map_of (ps_patterns s) pid of
        None \<Rightarrow> Inr (None, s)
      | Some pattern \<Rightarrow>
          let s1 = createVersion vnow pattern s;
              updatedPattern = pattern
                \<lparr> p_data := (case u_data update of Some d \<Rightarrow> d | None \<Rightarrow> p_data pattern),
                  p_metadata := merge_metadata (p_metadata pattern) (u_metadata update),
                  p_expiresAt := (case u_expiresAt update of
                                    Some e \<Rightarrow> Some e
                                  | None \<Rightarrow> p_expiresAt pattern),
                  p_updatedAt := unow \<rparr>
          in Inr (Some updatedPattern,
                  s1\<lparr> ps_patterns := AList.update pid updatedPattern (ps_patterns s1) \<rparr>))"

definition query_matches :: "int \<Rightarrow> PatternQuery \<Rightarrow> Pattern \<Rightarrow> bool" where
  "query_matches now query pattern =
     (\<not> (q_notExpired query = Some True \<and> expired now pattern)
      \<and> \<not> (case q_type query of None \<Rightarrow> False | Some t \<Rightarrow> t \<noteq> [] \<and> p_type pattern \<noteq> t)
      \<and> \<not> (case q_tags query of
               None \<Rightarrow> False
             | Some ts \<Rightarrow> ts \<noteq> [] \<and> \<not> list_all (\<lambda>tag. tag \<in> set (tags (p_metadata pattern))) ts)
      \<and> \<not> (case q_minConfidence query of
               None \<Rightarrow> False
             | Some c \<Rightarrow> confidence (p_metadata pattern) < c)
      \<and> \<not> (case q_minFrequency query of
               None \<Rightarrow> False
             | Some f \<Rightarrow> frequency (p_metadata pattern) < f)
      \<and> \<not> (case q_createdAfter query of
               None \<Rightarrow> False
             | Some a \<Rightarrow> a \<noteq> 0 \<and> p_createdAt pattern < a)
      \<and> \<not> (case q_createdBefore query of
               None \<Rightarrow> False
             | Some b \<Rightarrow> b \<noteq> 0 \<and> p_createdAt pattern > b))"

definition queryPatterns :: "int \<Rightarrow> PatternQuery \<Rightarrow> PatternStorage \<Rightarrow> error + Pattern list" where
  "queryPatterns now query s =
     (if \<not> ps_initialized s then Inl (NotInitialized PatternStorageC)
      else Inr (filter (query_matches now query) (map snd (ps_patterns s))))"

definition getPatternVersions :: "string \<Rightarrow> PatternStorage \<Rightarrow> error + PatternVersion list" where
  "getPatternVersions pid s =
     (if \<not> ps_initialized s then Inl (NotInitialized PatternStorageC)
      else Inr (case map_of (ps_versions s) pid of Some vs \<Rightarrow> vs | None \<Rightarrow> []))"

definition restorePattern ::
  "int \<Rightarrow> int \<Rightarrow> int \<Rightarrow> string \<Rightarrow> nat \<Rightarrow> PatternStorage
     \<Rightarrow> error + (Pattern option \<times> PatternStorage)" where
  "restorePattern vnow cnow unow pid version s =
     (if \<not> ps_initialized s then Inl (NotInitialized PatternStorageC)
      else case map_of (ps_versions s) pid of
        None \<Rightarrow> Inr (None, s)
      | Some versions \<Rightarrow>
          (case find (\<lambda>v. v_version v = version) versions of
             None \<Rightarrow> Inr (None, s)
           | Some versionData \<Rightarrow>
               let currentPattern = map_of (ps_patterns s) pid;
                   s1 = (case currentPattern of
                           Some cur \<Rightarrow> createVersion vnow cur s
                         | None \<Rightarrow> s);
                   restoredPattern =
                     \<lparr> p_id = pid,
                       p_type = (case currentPattern of
                                   Some cur \<Rightarrow> if p_type cur = [] then ''unknown'' else p_type cur
                                 | None \<Rightarrow> ''unknown''),
                       p_data = v_data versionData,
                       p_metadata = v_metadata versionData,
                       p_createdAt = (case currentPattern of
                                        Some cur \<Rightarrow> if p_createdAt cur = 0 then cnow
                                                    else p_createdAt cur
                                      | None \<Rightarrow> cnow),
                       p_updatedAt = unow,
                       p_expiresAt = (case currentPattern of
                                        Some cur \<Rightarrow> p_expiresAt cur
                                      | None \<Rightarrow> None) \<rparr>
               in Inr (Some restoredPattern,
                       s1\<lparr> ps_patterns := AList.update pid restoredPattern (ps_patterns s1) \<rparr>)))"




text \<open>
  \<^verbatim>\<open>initialize\<close>: \<^verbatim>\<open>loadAllPatterns\<close> stores every readable pattern file that has a truthy
  \<^verbatim>\<open>id\<close>, with its version file if there is one; \<^verbatim>\<open>cleanExpiredPatterns\<close> then calls
  \<^verbatim>\<open>deletePattern\<close> on each expired id, and only after that is \<^verbatim>\<open>initialized\<close> set.
\<close>

fun loadAllPatterns ::
  "(Pattern \<times> PatternVersion list option) list \<Rightarrow> PatternStorage \<Rightarrow> PatternStorage" where
  "loadAllPatterns [] s = s"
| "loadAllPatterns ((data, vs) # files) s =
     (if p_id data = [] then loadAllPatterns files s
      else
        let s1 = s\<lparr> ps_patterns := AList.update (p_id data) data (ps_patterns s) \<rparr>;
            s2 = (case vs of
                    Some versions \<Rightarrow>
                      s1\<lparr> ps_versions := AList.update (p_id data) versions (ps_versions s1) \<rparr>
                  | None \<Rightarrow> s1)
        in loadAllPatterns files s2)"

fun delete_each :: "string list \<Rightarrow> PatternStorage \<Rightarrow> error + PatternStorage" where
  "delete_each [] s = Inr s"
| "delete_each (pid # ids) s =
     (case deletePattern pid s of
        Inl e \<Rightarrow> Inl e
      | Inr (_, s') \<Rightarrow> delete_each ids s')"

definition cleanExpiredPatterns :: "int \<Rightarrow> PatternStorage \<Rightarrow> error + PatternStorage" where
  "cleanExpiredPatterns now s =
     delete_each (map fst (filter (\<lambda>kv. expired now (snd kv)) (ps_patterns s))) s"

text \<open>
  The result of \<^verbatim>\<open>initialize\<close> is the error it throws, if any, and the store it leaves.
  \<^verbatim>\<open>deletePattern\<close> can only throw before it writes, so a failing clean-up leaves the
  store as loaded.
\<close>

definition initialize ::
  "(Pattern \<times> PatternVersion list option) list \<Rightarrow> int \<Rightarrow> PatternStorage
     \<Rightarrow> error option \<times> PatternStorage" where
  "initialize files now s =
     (if ps_initialized s then (None, s)
      else case cleanExpiredPatterns now (loadAllPatterns files s) of
        Inl e \<Rightarrow> (Some e, loadAllPatterns files s)
      | Inr s' \<Rightarrow> (None, s'\<lparr> ps_initialized := True \<rparr>))"

section \<open>Pattern storage: runs\<close>

text \<open>
  A run is a list of calls made one after the other on the same store (the source runs each
  public method to completion before the next). A call that throws leaves the store as it
  was: every \<^verbatim>\<open>throw\<close> of the class precedes its first write.
\<close>

datatype ps_op =
    Save int int PatternCandidate
  | Get int string
  | Update int int string PatternUpdate
  | Delete string
  | Restore int int int string nat

fun apply_op :: "ps_op \<Rightarrow> PatternStorage \<Rightarrow> PatternStorage" where
  "apply_op (Save now vnow c) s = (case savePattern now vnow c s of Inl _ \<Rightarrow> s | Inr (_, s') \<Rightarrow> s')"
| "apply_op (Get now pid) s = (case getPattern now pid s of Inl _ \<Rightarrow> s | Inr (_, s') \<Rightarrow> s')"
| "apply_op (Update vnow unow pid u) s =
     (case updatePattern vnow unow pid u s of Inl _ \<Rightarrow> s | Inr (_, s') \<Rightarrow> s')"
| "apply_op (Delete pid) s = (case deletePattern pid s of Inl _ \<Rightarrow> s | Inr (_, s') \<Rightarrow> s')"
| "apply_op (Restore vnow cnow unow pid n) s =
     (case restorePattern vnow cnow unow pid n s of Inl _ \<Rightarrow> s | Inr (_, s') \<Rightarrow> s')"

declare apply_op.simps [simp del]

definition versions_of :: "string \<Rightarrow> PatternStorage \<Rightarrow> PatternVersion list" where
  "versions_of pid s = (case map_of (ps_versions s) pid of Some vs \<Rightarrow> vs | None \<Rightarrow> [])"

definition versions_bounded :: "PatternStorage \<Rightarrow> bool" where
  "versions_bounded s =
     list_all (\<lambda>kv. int (length (snd kv)) \<le> maxVersions (ps_config s)) (ps_versions s)"

definition snapshot :: "int \<Rightarrow> Pattern \<Rightarrow> nat \<Rightarrow> PatternVersion" where
  "snapshot t pattern n =
     \<lparr> v_patternId = p_id pattern, v_version = n, v_data = p_data pattern,
       v_metadata = p_metadata pattern, v_timestamp = t \<rparr>"

text \<open>A store constructed with \<open>cfg\<close> and initialized on an empty data directory.\<close>

definition empty_store :: "PartialStorageConfig \<Rightarrow> PatternStorage" where
  "empty_store cfg = snd (initialize [] 0 (new_PatternStorage cfg))"

lemma empty_store_simps:
  "ps_initialized (empty_store cfg)"
  "ps_patterns (empty_store cfg) = []"
  "ps_versions (empty_store cfg) = []"
  "ps_config (empty_store cfg) = ps_config (new_PatternStorage cfg)"
  by (simp_all add: empty_store_def initialize_def cleanExpiredPatterns_def new_PatternStorage_def)


subsection \<open>createVersion\<close>

lemma createVersion_frame [simp]:
  "ps_patterns (createVersion t p s) = ps_patterns s"
  "ps_initialized (createVersion t p s) = ps_initialized s"
  "ps_config (createVersion t p s) = ps_config s"
  by (simp_all add: createVersion_def Let_def)

lemma createVersion_versions:
  "ps_versions (createVersion t p s) =
     AList.update (p_id p)
       (let pushed = versions_of (p_id p) s @ [snapshot t p (length (versions_of (p_id p) s) + 1)]
        in if int (length pushed) > maxVersions (ps_config s) then tl pushed else pushed)
       (ps_versions s)"
  by (simp add: createVersion_def versions_of_def snapshot_def Let_def)

lemma versions_of_createVersion:
  "versions_of k (createVersion t p s) =
     (if k = p_id p then
        (let pushed = versions_of k s @ [snapshot t p (length (versions_of k s) + 1)]
         in if int (length pushed) > maxVersions (ps_config s) then tl pushed else pushed)
      else versions_of k s)"
  by (simp add: createVersion_versions versions_of_def update_conv' Let_def)

lemma set_update_subset: "set (AList.update k v al) \<subseteq> insert (k, v) (set al)"
  by (induction al) auto




lemma versions_bounded_patterns [simp]:
  "versions_bounded (s\<lparr> ps_patterns := ps \<rparr>) = versions_bounded s"
  by (simp add: versions_bounded_def)

lemma versions_bounded_delete:
  "versions_bounded s \<Longrightarrow> versions_bounded (s\<lparr> ps_versions := AList.delete k (ps_versions s) \<rparr>)"
  by (auto simp: versions_bounded_def list_all_iff AList.delete_eq)





subsection \<open>Updating one pattern\<close>

text \<open>
  \<open>stored pid s\<close>: the store is initialized and holds a pattern under \<open>pid\<close> whose own
  \<^verbatim>\<open>id\<close> is \<open>pid\<close> (as every pattern written by \<^verbatim>\<open>savePattern\<close> is).
\<close>

definition stored :: "string \<Rightarrow> PatternStorage \<Rightarrow> bool" where
  "stored pid s =
     (ps_initialized s \<and>
      (case map_of (ps_patterns s) pid of None \<Rightarrow> False | Some p \<Rightarrow> p_id p = pid))"

text \<open>\<^verbatim>\<open>if (versions.length > maxVersions) versions.shift()\<close>\<close>

definition trim :: "int \<Rightarrow> 'a list \<Rightarrow> 'a list" where
  "trim m pushed = (if int (length pushed) > m then tl pushed else pushed)"

lemma versions_of_createVersion_trim:
  "versions_of (p_id p) (createVersion t p s) =
     trim (maxVersions (ps_config s))
       (versions_of (p_id p) s @ [snapshot t p (length (versions_of (p_id p) s) + 1)])"
  by (simp add: versions_of_createVersion trim_def Let_def)

lemma versions_of_patterns_update [simp]:
  "versions_of k (s\<lparr> ps_patterns := ps \<rparr>) = versions_of k s"
  by (simp add: versions_of_def)

lemma update_stored:
  assumes "stored pid s" and "map_of (ps_patterns s) pid = Some p"
  shows "stored pid (apply_op (Update v u pid upd) s)"
    and "ps_config (apply_op (Update v u pid upd) s) = ps_config s"
    and "versions_of pid (apply_op (Update v u pid upd) s) =
           trim (maxVersions (ps_config s))
             (versions_of pid s @ [snapshot v p (length (versions_of pid s) + 1)])"
proof -
  from assms have pid: "p_id p = pid" and init: "ps_initialized s"
    by (simp_all add: stored_def)
  show "stored pid (apply_op (Update v u pid upd) s)"
    using assms by (simp add: apply_op.simps stored_def updatePattern_def Let_def update_conv')
  show "ps_config (apply_op (Update v u pid upd) s) = ps_config s"
    using assms by (simp add: apply_op.simps stored_def updatePattern_def Let_def)
  show "versions_of pid (apply_op (Update v u pid upd) s) =
           trim (maxVersions (ps_config s))
             (versions_of pid s @ [snapshot v p (length (versions_of pid s) + 1)])"
    using init assms(2) versions_of_createVersion_trim [of p v s]
    by (simp add: apply_op.simps updatePattern_def Let_def pid)
qed

lemma save_fresh:
  "stored (generatePatternId c) (apply_op (Save now vnow c) (empty_store cfg))"
  "ps_config (apply_op (Save now vnow c) (empty_store cfg)) = ps_config (new_PatternStorage cfg)"
  "versions_of (generatePatternId c) (apply_op (Save now vnow c) (empty_store cfg)) = []"
  by (simp_all add: apply_op.simps stored_def savePattern_def Let_def empty_store_simps
      versions_of_def)

definition updates :: "string \<Rightarrow> (int \<times> int \<times> PatternUpdate) list \<Rightarrow> ps_op list" where
  "updates pid us = map (\<lambda>(v, u, upd). Update v u pid upd) us"


lemma version_numbers_trim_push:
  "map v_version (trim m (vs @ [snapshot t p n])) = trim m (map v_version vs @ [n])"
  by (simp add: trim_def snapshot_def map_tl)


lemma updates_version_numbers:
  assumes "stored pid s"
  shows "map v_version (versions_of pid (fold apply_op (updates pid us) s)) =
           fold (\<lambda>_ ns. trim (maxVersions (ps_config s)) (ns @ [length ns + 1])) us
             (map v_version (versions_of pid s))"
  using assms
proof (induction us arbitrary: s)
  case Nil
  then show ?case by (simp add: updates_def)
next
  case (Cons x us)
  obtain v u upd where x: "x = (v, u, upd)" by (cases x)
  from Cons.prems(1) obtain p where p: "map_of (ps_patterns s) pid = Some p"
    by (auto simp: stored_def split: option.splits)
  let ?s = "apply_op (Update v u pid upd) s"
  note step = update_stored [OF Cons.prems(1) p, of v u upd]
  from Cons.IH [OF step(1)] show ?case
    by (simp add: updates_def x step(2,3) version_numbers_trim_push)
qed

lemma getPatternVersions_stored:
  "stored pid s \<Longrightarrow> getPatternVersions pid s = Inr (versions_of pid s)"
  by (simp add: getPatternVersions_def stored_def versions_of_def)

lemma stored_updates: "stored pid s \<Longrightarrow> stored pid (fold apply_op (updates pid us) s)"
proof (induction us arbitrary: s)
  case Nil
  then show ?case by (simp add: updates_def)
next
  case (Cons x us)
  obtain v u upd where x: "x = (v, u, upd)" by (cases x)
  from Cons.prems(1) obtain p where p: "map_of (ps_patterns s) pid = Some p"
    by (auto simp: stored_def split: option.splits)
  from Cons.IH [OF update_stored(1) [OF Cons.prems p, of v u upd]]
  show ?case by (simp add: updates_def x)
qed



section \<open>Pattern storage: the claims\<close>

text \<open>The candidate of the repository's storage tests, and variants of it.\<close>

definition test_metadata :: PatternMetadata where
  "test_metadata =
     \<lparr> confidence = 1, frequency = 1, lastSeen = 1000, tags = [''test''], source = ''test'' \<rparr>"

definition test_candidate :: PatternCandidate where
  "test_candidate =
     \<lparr> c_type = ''test'', c_data = [(''key'', JStr ''value'')],
       c_metadata = test_metadata, c_expiresAt = None \<rparr>"


definition test_candidate_epoch :: PatternCandidate where
  "test_candidate_epoch = test_candidate \<lparr> c_expiresAt := Some 0 \<rparr>"

definition test_candidate_expired :: PatternCandidate where
  "test_candidate_expired = test_candidate \<lparr> c_expiresAt := Some 500 \<rparr>"

definition test_update :: PatternUpdate where
  "test_update =
     \<lparr> u_data = Some [(''key'', JStr ''updated'')], u_metadata = None, u_expiresAt = None \<rparr>"

lemma test_candidate_id: "generatePatternId test_candidate = ''test-72134933''"
  by code_simp




lemma test_candidate_fields:
  "c_type test_candidate = ''test''"
  "c_data test_candidate = [(''key'', JStr ''value'')]"
  "c_metadata test_candidate = test_metadata"
  "c_expiresAt test_candidate = None"
  "c_expiresAt test_candidate_epoch = Some 0"
  "c_expiresAt test_candidate_expired = Some 500"
  "c_type test_candidate_epoch = ''test''"
  "c_type test_candidate_expired = ''test''"
  by (simp_all add: test_candidate_def test_candidate_epoch_def test_candidate_expired_def)







text \<open>
  C5 (the code at the failing input). The test candidate is saved at time 1000 and saved
  again at time 2000: the ids agree, the first record has \<^verbatim>\<open>createdAt = 1000\<close>, and the
  one record in the store afterwards has \<^verbatim>\<open>createdAt = 2000\<close>.
\<close>

theorem resave_overwrites_createdAt:
  "(case savePattern 1000 1000 test_candidate (empty_store default_config) of
      Inl _ \<Rightarrow> False
    | Inr (p1, s1) \<Rightarrow>
        (case savePattern 2000 2000 test_candidate s1 of
           Inl _ \<Rightarrow> False
         | Inr (p2, s2) \<Rightarrow>
             p_id p2 = p_id p1 \<and> p_createdAt p1 = 1000 \<and>
             p_expiresAt p1 = Some (1000 + 30 * 24 * 60 * 60 * 1000) \<and>
             map (\<lambda>kv. p_createdAt (snd kv)) (ps_patterns s2) = [2000] \<and>
             map (\<lambda>kv. p_updatedAt (snd kv)) (ps_patterns s2) = [2000]))"
  by (simp add: savePattern_def empty_store_simps test_candidate_id Let_def
      new_PatternStorage_def default_config_def test_candidate_fields)














text \<open>
  C4 (the code at the failing input). On a store with the default configuration the test
  candidate is saved and then updated 12 times. The version list is full after the tenth
  update, so from the eleventh on \<^verbatim>\<open>versions.length + 1\<close> is 11 every time: the two newest
  retained versions both carry the number 11.
\<close>

theorem version_number_repeats:
  "(case getPatternVersions (generatePatternId test_candidate)
      (fold apply_op
        (Save 1000 1000 test_candidate #
         updates (generatePatternId test_candidate) (replicate 12 (2000, 2000, test_update)))
        (empty_store default_config)) of
      Inl _ \<Rightarrow> False
    | Inr kept \<Rightarrow> map v_version kept = [3, 4, 5, 6, 7, 8, 9, 10, 11, 11])"
proof -
  let ?pid = "generatePatternId test_candidate"
  let ?s1 = "apply_op (Save 1000 1000 test_candidate) (empty_store default_config)"
  let ?us = "replicate 12 (2000 :: int, 2000 :: int, test_update)"
  have cfg: "maxVersions (ps_config ?s1) = 10"
    by (simp add: save_fresh(2) new_PatternStorage_def default_config_def)
  have "map v_version (versions_of ?pid (fold apply_op (updates ?pid ?us) ?s1)) =
      fold (\<lambda>_ ns. trim 10 (ns @ [length ns + 1])) ?us []"
    using updates_version_numbers [where pid = ?pid and s = ?s1 and us = ?us, OF save_fresh(1)]
    by (simp add: cfg save_fresh(3))
  also have "\<dots> = [3, 4, 5, 6, 7, 8, 9, 10, 11, 11]"
    by (simp add: trim_def numeral_eq_Suc)
  finally show ?thesis
    using stored_updates [where pid = ?pid and s = ?s1 and us = ?us, OF save_fresh(1)]
    by (simp add: getPatternVersions_stored)
qed



section \<open>Knowledge base: data model\<close>

datatype KnowledgeType = Fact | Rule | Relationship | Concept

datatype RelationshipType = Causal | Temporal | Hierarchical | Associative | Contradictory

record KnowledgeMetadata =
  km_confidence :: int
  km_sources :: "string list"
  km_frequency :: int
  km_tags :: "string list"
  km_lastVerified :: "int option"

record KnowledgeItem =
  k_id :: string
  k_patternId :: string
  k_type :: KnowledgeType
  k_content :: string
  k_structuredData :: jobject
  k_metadata :: KnowledgeMetadata
  k_createdAt :: int
  k_updatedAt :: int

text \<open>\<^verbatim>\<open>strength\<close> is a quotient of two lengths: an exact rational where the source has a double.\<close>

record KnowledgeRelationship =
  r_id :: string
  r_fromId :: string
  r_toId :: string
  r_type :: RelationshipType
  r_strength :: rat
  r_metadata :: "jobject option"

record KnowledgeExtractionResult =
  extractedItems :: "KnowledgeItem list"
  relationships :: "KnowledgeRelationship list"

record KnowledgeBaseConfig =
  kc_dataDir :: string
  maxItems :: int
  enablePersistence :: bool

record PartialKnowledgeBaseConfig =
  pk_dataDir :: "string option"
  pk_maxItems :: "int option"
  pk_enablePersistence :: "bool option"

text \<open>
  The four \<^verbatim>\<open>Map\<close>s are association lists in insertion order, as in the pattern store; a
  \<^verbatim>\<open>Set<string>\<close> of an index is the list of its members in insertion order.
\<close>

record KnowledgeBase =
  kb_config :: KnowledgeBaseConfig
  kb_items :: "(string \<times> KnowledgeItem) list"
  kb_relationships :: "(string \<times> KnowledgeRelationship) list"
  kb_patternIndex :: "(string \<times> string list) list"
  kb_tagIndex :: "(string \<times> string list) list"
  kb_initialized :: bool

text \<open>The constructor: \<^verbatim>\<open>config?.x ?? default\<close> replaces a missing value only.\<close>

definition new_KnowledgeBase :: "PartialKnowledgeBaseConfig \<Rightarrow> KnowledgeBase" where
  "new_KnowledgeBase cfg =
     \<lparr> kb_config =
         \<lparr> kc_dataDir = (case pk_dataDir cfg of Some d \<Rightarrow> d | None \<Rightarrow> ''./data/knowledge''),
           maxItems = (case pk_maxItems cfg of Some n \<Rightarrow> n | None \<Rightarrow> 10000),
           enablePersistence = (case pk_enablePersistence cfg of Some b \<Rightarrow> b | None \<Rightarrow> True) \<rparr>,
       kb_items = [],
       kb_relationships = [],
       kb_patternIndex = [],
       kb_tagIndex = [],
       kb_initialized = False \<rparr>"

section \<open>Knowledge base: extraction\<close>

text \<open>JavaScript's truthiness and string conversion of a value, as \<^verbatim>\<open>&&\<close> and template
  literals apply them; \<^verbatim>\<open>Array.prototype.join\<close> prints \<^verbatim>\<open>null\<close> as the empty string.\<close>

fun truthy :: "json \<Rightarrow> bool" where
  "truthy JNull = False"
| "truthy (JBool b) = b"
| "truthy (JNum n) = (n \<noteq> 0)"
| "truthy (JStr s) = (s \<noteq> [])"
| "truthy (JArr xs) = True"
| "truthy (JObj kvs) = True"

fun to_string :: "json \<Rightarrow> string" where
  "to_string JNull = ''null''"
| "to_string (JBool b) = (if b then ''true'' else ''false'')"
| "to_string (JNum n) = number_to_string n"
| "to_string (JStr s) = s"
| "to_string (JArr xs) = join '','' (map (\<lambda>x. if x = JNull then [] else to_string x) xs)"
| "to_string (JObj kvs) = ''[object Object]''"

definition array_join :: "string \<Rightarrow> json list \<Rightarrow> string" where
  "array_join sep xs = join sep (map (\<lambda>x. if x = JNull then [] else to_string x) xs)"

definition is_truthy :: "json option \<Rightarrow> bool" where
  \<comment> \<open>a property that may be absent (\<^verbatim>\<open>undefined\<close>)\<close>
  "is_truthy v = (case v of None \<Rightarrow> False | Some x \<Rightarrow> truthy x)"

definition template :: "json option \<Rightarrow> string" where
  "template v = (case v of None \<Rightarrow> ''undefined'' | Some x \<Rightarrow> to_string x)"

definition own_prop :: "string \<Rightarrow> json option \<Rightarrow> jobject" where
  \<comment> \<open>a property of an object literal; one whose value is \<^verbatim>\<open>undefined\<close> is left out, as
     \<^verbatim>\<open>JSON.stringify\<close> and the JSON files do\<close>
  "own_prop k v = (case v of None \<Rightarrow> [] | Some x \<Rightarrow> [(k, x)])"

text \<open>
  What the environment supplies to one extraction: the clock reading and the random suffix
  \<^verbatim>\<open>Math.random().toString(36).substr(2, 9)\<close> inside \<^verbatim>\<open>generateKnowledgeId\<close>, the three
  later clock readings, and the id \<^verbatim>\<open>generateRelationshipId\<close> returns for the pair of
  items at two positions.
\<close>

record extraction_env =
  e_idNow :: int
  e_idRandom :: string
  e_lastVerified :: int
  e_createdAt :: int
  e_updatedAt :: int
  e_relationshipId :: "nat \<Rightarrow> nat \<Rightarrow> string"

definition generateKnowledgeId :: "extraction_env \<Rightarrow> string" where
  "generateKnowledgeId env = ''knowledge-'' @ number_to_string (e_idNow env) @ ''-'' @ e_idRandom env"

definition extracted_metadata :: "extraction_env \<Rightarrow> string list \<Rightarrow> Pattern \<Rightarrow> KnowledgeMetadata" where
  "extracted_metadata env kind_tags pattern =
     \<lparr> km_confidence = confidence (p_metadata pattern),
       km_sources = [source (p_metadata pattern)],
       km_frequency = frequency (p_metadata pattern),
       km_tags = kind_tags @ tags (p_metadata pattern),
       km_lastVerified = Some (e_lastVerified env) \<rparr>"

definition extracted_item ::
  "extraction_env \<Rightarrow> Pattern \<Rightarrow> KnowledgeType \<Rightarrow> string \<Rightarrow> jobject \<Rightarrow> string list
     \<Rightarrow> KnowledgeItem" where
  "extracted_item env pattern ty content structured kind_tags =
     \<lparr> k_id = generateKnowledgeId env,
       k_patternId = p_id pattern,
       k_type = ty,
       k_content = content,
       k_structuredData = structured,
       k_metadata = extracted_metadata env kind_tags pattern,
       k_createdAt = e_createdAt env,
       k_updatedAt = e_updatedAt env \<rparr>"

definition extractBehavioralKnowledge :: "extraction_env \<Rightarrow> Pattern \<Rightarrow> KnowledgeItem list" where
  "extractBehavioralKnowledge env pattern =
     (let data = map_of (p_data pattern) in
      if is_truthy (data ''trigger'') \<and> is_truthy (data ''action'') then
        [extracted_item env pattern Rule
           (''When '' @ template (data ''trigger'') @ '', then '' @ template (data ''action''))
           (own_prop ''trigger'' (data ''trigger'') @ own_prop ''action'' (data ''action'')
              @ own_prop ''context'' (data ''context''))
           [''behavioral'', ''rule'']]
      else [])"

definition is_array :: "json option \<Rightarrow> bool" where
  "is_array v = (case v of Some (JArr xs) \<Rightarrow> True | _ \<Rightarrow> False)"

definition elements :: "json option \<Rightarrow> json list" where
  "elements v = (case v of Some (JArr xs) \<Rightarrow> xs | _ \<Rightarrow> [])"

definition extractTemporalKnowledge :: "extraction_env \<Rightarrow> Pattern \<Rightarrow> KnowledgeItem list" where
  "extractTemporalKnowledge env pattern =
     (let data = map_of (p_data pattern) in
      if is_truthy (data ''sequence'') \<and> is_array (data ''sequence'') then
        [extracted_item env pattern Relationship
           (''Temporal sequence: '' @ array_join '' -> '' (elements (data ''sequence'')))
           (own_prop ''sequence'' (data ''sequence'') @ own_prop ''interval'' (data ''interval'')
              @ own_prop ''duration'' (data ''duration''))
           [''temporal'', ''sequence'']]
      else [])"

text \<open>The separator of the sequential rule is the arrow U+2192 between two spaces, written
  here as its three UTF-8 bytes.\<close>

definition arrow_separator :: string where
  "arrow_separator = [CHR '' '', CHR 0xE2, CHR 0x86, CHR 0x92, CHR '' '']"

definition extractSequentialKnowledge :: "extraction_env \<Rightarrow> Pattern \<Rightarrow> KnowledgeItem list" where
  "extractSequentialKnowledge env pattern =
     (let data = map_of (p_data pattern) in
      if is_truthy (data ''steps'') \<and> is_array (data ''steps'') then
        [extracted_item env pattern Rule
           (''Sequential pattern: '' @ array_join arrow_separator (elements (data ''steps'')))
           (own_prop ''steps'' (data ''steps'') @ own_prop ''conditions'' (data ''conditions''))
           [''sequential'', ''rule'']]
      else [])"

definition extractCategoricalKnowledge :: "extraction_env \<Rightarrow> Pattern \<Rightarrow> KnowledgeItem list" where
  "extractCategoricalKnowledge env pattern =
     (let data = map_of (p_data pattern) in
      if is_truthy (data ''category'') \<and> is_truthy (data ''items'') then
        [extracted_item env pattern Concept
           (''Category '' @ template (data ''category'') @ '' contains: ''
              @ (if is_array (data ''items'') then array_join '', '' (elements (data ''items''))
                 else template (data ''items'')))
           (own_prop ''category'' (data ''category'') @ own_prop ''items'' (data ''items'')
              @ own_prop ''attributes'' (data ''attributes''))
           [''categorical'', ''concept'']]
      else [])"

definition extractGenericKnowledge :: "extraction_env \<Rightarrow> Pattern \<Rightarrow> KnowledgeItem" where
  "extractGenericKnowledge env pattern =
     extracted_item env pattern Fact (stringify (JObj (p_data pattern))) (p_data pattern)
       [''generic'']"

text \<open>\<^verbatim>\<open>analyzeRelationships\<close>: the two nested loops over the pairs \<open>i < j\<close>.\<close>

definition relate ::
  "extraction_env \<Rightarrow> KnowledgeItem list \<Rightarrow> nat \<Rightarrow> nat \<Rightarrow> KnowledgeRelationship list" where
  "relate env items i j =
     (let item1 = items ! i; item2 = items ! j;
          commonTags = filter (\<lambda>tag. tag \<in> set (km_tags (k_metadata item2)))
                         (km_tags (k_metadata item1))
      in if length commonTags > 0 then
           [\<lparr> r_id = e_relationshipId env i j,
              r_fromId = k_id item1,
              r_toId = k_id item2,
              r_type = Associative,
              r_strength = of_nat (length commonTags)
                / of_nat (max (length (km_tags (k_metadata item1)))
                              (length (km_tags (k_metadata item2)))),
              r_metadata = Some [(''commonTags'', JArr (map JStr commonTags))] \<rparr>]
         else [])"

definition analyzeRelationships ::
  "extraction_env \<Rightarrow> KnowledgeItem list \<Rightarrow> KnowledgeRelationship list" where
  "analyzeRelationships env items =
     concat (map (\<lambda>i. concat (map (\<lambda>j. relate env items i j) [i + 1 ..< length items]))
               [0 ..< length items])"

text \<open>\<^verbatim>\<open>extractKnowledge\<close> does not call \<^verbatim>\<open>ensureInitialized\<close> and reads no map.\<close>

definition extractKnowledge :: "extraction_env \<Rightarrow> Pattern \<Rightarrow> KnowledgeExtractionResult" where
  "extractKnowledge env pattern =
     (let items =
        (if p_type pattern = ''behavioral'' then extractBehavioralKnowledge env pattern
         else if p_type pattern = ''temporal'' then extractTemporalKnowledge env pattern
         else if p_type pattern = ''sequential'' then extractSequentialKnowledge env pattern
         else if p_type pattern = ''categorical'' then extractCategoricalKnowledge env pattern
         else [extractGenericKnowledge env pattern])
      in \<lparr> extractedItems = items,
           relationships = (if length items > 1 then analyzeRelationships env items else []) \<rparr>)"


section \<open>Knowledge base: operations\<close>

text \<open>
  As for the pattern store, an operation takes the knowledge base and returns the new one
  with its result, a thrown \<^verbatim>\<open>Error\<close> is \<open>Inl\<close>, and the files (written only when
  \<^verbatim>\<open>enablePersistence\<close> is set) are read back only by \<^verbatim>\<open>initialize\<close>.
\<close>

definition set_add :: "string \<Rightarrow> string list \<Rightarrow> string list" where
  "set_add x xs = (if x \<in> set xs then xs else xs @ [x])"

definition index_add :: "string \<Rightarrow> string \<Rightarrow> (string \<times> string list) list \<Rightarrow> (string \<times> string list) list" where
  "index_add key member idx =
     AList.update key (set_add member (case map_of idx key of Some ms \<Rightarrow> ms | None \<Rightarrow> [])) idx"

definition index_remove :: "string \<Rightarrow> string \<Rightarrow> (string \<times> string list) list \<Rightarrow> (string \<times> string list) list" where
  "index_remove key member idx =
     (case map_of idx key of
        None \<Rightarrow> idx
      | Some ms \<Rightarrow>
          if removeAll member ms = [] then AList.delete key idx
          else AList.update key (removeAll member ms) idx)"

definition updatePatternIndex :: "KnowledgeItem \<Rightarrow> KnowledgeBase \<Rightarrow> KnowledgeBase" where
  "updatePatternIndex item kb =
     kb\<lparr> kb_patternIndex := index_add (k_patternId item) (k_id item) (kb_patternIndex kb) \<rparr>"

definition updateTagIndex :: "KnowledgeItem \<Rightarrow> KnowledgeBase \<Rightarrow> KnowledgeBase" where
  "updateTagIndex item kb =
     kb\<lparr> kb_tagIndex :=
           fold (\<lambda>tag idx. index_add tag (k_id item) idx) (km_tags (k_metadata item))
             (kb_tagIndex kb) \<rparr>"

definition removeFromPatternIndex :: "KnowledgeItem \<Rightarrow> KnowledgeBase \<Rightarrow> KnowledgeBase" where
  "removeFromPatternIndex item kb =
     kb\<lparr> kb_patternIndex := index_remove (k_patternId item) (k_id item) (kb_patternIndex kb) \<rparr>"

definition removeFromTagIndex :: "KnowledgeItem \<Rightarrow> KnowledgeBase \<Rightarrow> KnowledgeBase" where
  "removeFromTagIndex item kb =
     kb\<lparr> kb_tagIndex :=
           fold (\<lambda>tag idx. index_remove tag (k_id item) idx) (km_tags (k_metadata item))
             (kb_tagIndex kb) \<rparr>"

definition touches :: "string \<Rightarrow> KnowledgeRelationship \<Rightarrow> bool" where
  "touches kid rel = (r_fromId rel = kid \<or> r_toId rel = kid)"

definition removeKnowledge :: "string \<Rightarrow> KnowledgeBase \<Rightarrow> error + (bool \<times> KnowledgeBase)" where
  "removeKnowledge kid kb =
     (if \<not> kb_initialized kb then Inl (NotInitialized KnowledgeBaseC)
      else case map_of (kb_items kb) kid of
        None \<Rightarrow> Inr (False, kb)
      | Some item \<Rightarrow>
          let kb1 = removeFromTagIndex item (removeFromPatternIndex item kb);
              kb2 = kb1\<lparr> kb_items := AList.delete kid (kb_items kb1) \<rparr>;
              relationshipsToRemove =
                map fst (filter (\<lambda>kv. touches kid (snd kv)) (kb_relationships kb2))
          in Inr (True,
                  kb2\<lparr> kb_relationships :=
                         fold AList.delete relationshipsToRemove (kb_relationships kb2) \<rparr>))"

fun remove_each :: "string list \<Rightarrow> KnowledgeBase \<Rightarrow> error + KnowledgeBase" where
  "remove_each [] kb = Inr kb"
| "remove_each (kid # kids) kb =
     (case removeKnowledge kid kb of
        Inl e \<Rightarrow> Inl e
      | Inr (_, kb') \<Rightarrow> remove_each kids kb')"

text \<open>\<^verbatim>\<open>pruneOldItems\<close>: the entries sorted by \<^verbatim>\<open>createdAt\<close> (the sort is stable), the first
  \<^verbatim>\<open>min(count, length)\<close> of them removed.\<close>

definition pruneOldItems :: "int \<Rightarrow> KnowledgeBase \<Rightarrow> error + KnowledgeBase" where
  "pruneOldItems count kb =
     (let itemsByAge = sort_key (\<lambda>kv. k_createdAt (snd kv)) (kb_items kb)
      in remove_each (map fst (take (nat (min count (int (length itemsByAge)))) itemsByAge)) kb)"

definition addKnowledge :: "KnowledgeItem \<Rightarrow> KnowledgeBase \<Rightarrow> error + KnowledgeBase" where
  "addKnowledge item kb =
     (if \<not> kb_initialized kb then Inl (NotInitialized KnowledgeBaseC)
      else case (if int (length (kb_items kb)) \<ge> maxItems (kb_config kb)
                 then pruneOldItems 1 kb else Inr kb) of
        Inl e \<Rightarrow> Inl e
      | Inr kb1 \<Rightarrow>
          Inr (updateTagIndex item (updatePatternIndex item
                 (kb1\<lparr> kb_items := AList.update (k_id item) item (kb_items kb1) \<rparr>))))"

fun add_each :: "KnowledgeItem list \<Rightarrow> KnowledgeBase \<Rightarrow> error + KnowledgeBase" where
  "add_each [] kb = Inr kb"
| "add_each (item # items) kb =
     (case addKnowledge item kb of
        Inl e \<Rightarrow> Inl e
      | Inr kb' \<Rightarrow> add_each items kb')"

definition addKnowledgeItems :: "KnowledgeItem list \<Rightarrow> KnowledgeBase \<Rightarrow> error + KnowledgeBase" where
  "addKnowledgeItems items kb =
     (if \<not> kb_initialized kb then Inl (NotInitialized KnowledgeBaseC)
      else add_each items kb)"

text \<open>\<^verbatim>\<open>addRelationship\<close> stores the relationship under its id; it looks at no item.\<close>

definition addRelationship :: "KnowledgeRelationship \<Rightarrow> KnowledgeBase \<Rightarrow> error + KnowledgeBase" where
  "addRelationship relationship kb =
     (if \<not> kb_initialized kb then Inl (NotInitialized KnowledgeBaseC)
      else Inr (kb\<lparr> kb_relationships :=
                     AList.update (r_id relationship) relationship (kb_relationships kb) \<rparr>))"


definition getRelationship :: "string \<Rightarrow> KnowledgeBase \<Rightarrow> error + KnowledgeRelationship option" where
  "getRelationship rid kb =
     (if \<not> kb_initialized kb then Inl (NotInitialized KnowledgeBaseC)
      else Inr (map_of (kb_relationships kb) rid))"

record KnowledgeUpdates =
  ku_content :: "string option"
  ku_structuredData :: "jobject option"
  ku_metadata :: "KnowledgeMetadata option"

definition updateKnowledge ::
  "int \<Rightarrow> string \<Rightarrow> KnowledgeUpdates \<Rightarrow> KnowledgeBase
     \<Rightarrow> error + (KnowledgeItem option \<times> KnowledgeBase)" where
  "updateKnowledge now kid upd kb =
     (if \<not> kb_initialized kb then Inl (NotInitialized KnowledgeBaseC)
      else case map_of (kb_items kb) kid of
        None \<Rightarrow> Inr (None, kb)
      | Some item \<Rightarrow>
          let updatedItem = item
                \<lparr> k_content := (case ku_content upd of Some c \<Rightarrow> c | None \<Rightarrow> k_content item),
                  k_structuredData := (case ku_structuredData upd of
                                         Some d \<Rightarrow> d
                                       | None \<Rightarrow> k_structuredData item),
                  k_metadata := (case ku_metadata upd of
                                   Some md \<Rightarrow> md
                                 | None \<Rightarrow> k_metadata item),
                  k_updatedAt := now \<rparr>
          in Inr (Some updatedItem,
                  kb\<lparr> kb_items := AList.update kid updatedItem (kb_items kb) \<rparr>))"




text \<open>
  \<^verbatim>\<open>initialize\<close> with persistence enabled loads the item files that have a truthy id and
  the relationships of the shared file that have one.
\<close>

fun load_items :: "KnowledgeItem list \<Rightarrow> KnowledgeBase \<Rightarrow> KnowledgeBase" where
  "load_items [] kb = kb"
| "load_items (item # items) kb =
     (if k_id item = [] then load_items items kb
      else load_items items
             (updateTagIndex item (updatePatternIndex item
                (kb\<lparr> kb_items := AList.update (k_id item) item (kb_items kb) \<rparr>))))"

fun load_relationships :: "KnowledgeRelationship list \<Rightarrow> KnowledgeBase \<Rightarrow> KnowledgeBase" where
  "load_relationships [] kb = kb"
| "load_relationships (rel # rels) kb =
     (if r_id rel = [] then load_relationships rels kb
      else load_relationships rels
             (kb\<lparr> kb_relationships := AList.update (r_id rel) rel (kb_relationships kb) \<rparr>))"

definition kb_initialize ::
  "KnowledgeItem list \<Rightarrow> KnowledgeRelationship list \<Rightarrow> KnowledgeBase \<Rightarrow> KnowledgeBase" where
  "kb_initialize item_files relationship_file kb =
     (if kb_initialized kb then kb
      else (if enablePersistence (kb_config kb)
            then load_relationships relationship_file (load_items item_files kb)
            else kb) \<lparr> kb_initialized := True \<rparr>)"


section \<open>Knowledge base: traversal and search\<close>

text \<open>
  \<^verbatim>\<open>findRelatedItems\<close>. The closure \<^verbatim>\<open>traverse\<close> and its loop over
  \<^verbatim>\<open>this.relationships.values()\<close> are two mutually recursive functions that pass the
  \<^verbatim>\<open>visited\<close> set and the \<^verbatim>\<open>result\<close> array along; \<open>scan\<close> is the loop on the relationships
  still to look at. An empty neighbour id is falsy and skipped.
\<close>

definition neighbor_of :: "string \<Rightarrow> KnowledgeRelationship \<Rightarrow> string option" where
  "neighbor_of kid relationship =
     (if r_fromId relationship = kid then Some (r_toId relationship)
      else if r_toId relationship = kid then Some (r_fromId relationship)
      else None)"

type_synonym walk = "string set \<times> KnowledgeItem list"

function traverse :: "KnowledgeBase \<Rightarrow> int \<Rightarrow> string \<Rightarrow> int \<Rightarrow> walk \<Rightarrow> walk"
  and scan :: "KnowledgeBase \<Rightarrow> int \<Rightarrow> string \<Rightarrow> int \<Rightarrow> KnowledgeRelationship list \<Rightarrow> walk \<Rightarrow> walk"
  where
  "traverse kb maxDepth kid depth (visited, result) =
     (if depth > maxDepth \<or> kid \<in> visited then (visited, result)
      else scan kb maxDepth kid depth (map snd (kb_relationships kb)) (insert kid visited, result))"
| "scan kb maxDepth kid depth [] w = w"
| "scan kb maxDepth kid depth (relationship # rest) (visited, result) =
     (case neighbor_of kid relationship of
        None \<Rightarrow> scan kb maxDepth kid depth rest (visited, result)
      | Some neighborId \<Rightarrow>
          if neighborId \<noteq> [] \<and> neighborId \<notin> visited then
            (case map_of (kb_items kb) neighborId of
               None \<Rightarrow> scan kb maxDepth kid depth rest (visited, result)
             | Some neighbor \<Rightarrow>
                 scan kb maxDepth kid depth rest
                   (traverse kb maxDepth neighborId (depth + 1) (visited, result @ [neighbor])))
          else scan kb maxDepth kid depth rest (visited, result))"
  by pat_completeness auto
termination
  by (relation "measures
      [\<lambda>x. case x of
             Inl (kb, maxDepth, kid, depth, w) \<Rightarrow> 2 * nat (maxDepth + 1 - depth)
           | Inr (kb, maxDepth, kid, depth, rest, w) \<Rightarrow> 2 * nat (maxDepth + 1 - depth) - 1,
       \<lambda>x. case x of
             Inl (kb, maxDepth, kid, depth, w) \<Rightarrow> 0
           | Inr (kb, maxDepth, kid, depth, rest, w) \<Rightarrow> Suc (length rest)]")
    auto


definition findRelatedItems ::
  "string \<Rightarrow> int option \<Rightarrow> KnowledgeBase \<Rightarrow> error + KnowledgeItem list" where
  "findRelatedItems itemId depth_arg kb =
     (if \<not> kb_initialized kb then Inl (NotInitialized KnowledgeBaseC)
      else
        let maxDepth = (case depth_arg of Some d \<Rightarrow> d | None \<Rightarrow> 2)
        in Inr (snd (traverse kb maxDepth itemId 0 ({}, []))))"









section \<open>Knowledge base: the claims\<close>

text \<open>
  \<open>items_keyed\<close>: every item is stored under its own \<^verbatim>\<open>id\<close>, as \<^verbatim>\<open>addKnowledge\<close>,
  \<^verbatim>\<open>updateKnowledge\<close> and the loader store it. \<open>hop\<close> is one relationship read in either
  direction, and \<open>reachable_in kb n a b\<close> says that at most \<open>n\<close> hops lead from \<open>a\<close> to \<open>b\<close>.
\<close>

definition items_keyed :: "KnowledgeBase \<Rightarrow> bool" where
  "items_keyed kb = list_all (\<lambda>kv. k_id (snd kv) = fst kv) (kb_items kb)"

definition hop :: "KnowledgeBase \<Rightarrow> string \<Rightarrow> string \<Rightarrow> bool" where
  "hop kb a b = list_ex (\<lambda>kv. neighbor_of a (snd kv) = Some b) (kb_relationships kb)"

fun reachable_in :: "KnowledgeBase \<Rightarrow> nat \<Rightarrow> string \<Rightarrow> string \<Rightarrow> bool" where
  "reachable_in kb 0 a b = (a = b)"
| "reachable_in kb (Suc n) a b = (reachable_in kb n a b \<or> (\<exists>c. reachable_in kb n a c \<and> hop kb c b))"

lemma items_keyedD: "items_keyed kb \<Longrightarrow> map_of (kb_items kb) k = Some it \<Longrightarrow> k_id it = k"
  by (auto simp: items_keyed_def list_all_iff dest!: map_of_SomeD)

lemma reachable_in_mono: "reachable_in kb n a b \<Longrightarrow> n \<le> m \<Longrightarrow> reachable_in kb m a b"
proof (induction m)
  case 0
  then show ?case by simp
next
  case (Suc m)
  then show ?case by (cases "n = Suc m") auto
qed

lemma walk_excludes_start:
  "items_keyed kb \<Longrightarrow> x \<in> fst w \<Longrightarrow> x \<notin> k_id ` set (snd w) \<Longrightarrow>
     x \<in> fst (traverse kb maxDepth kid depth w) \<and>
     x \<notin> k_id ` set (snd (traverse kb maxDepth kid depth w))"
  "items_keyed kb \<Longrightarrow> x \<in> fst w \<Longrightarrow> x \<notin> k_id ` set (snd w) \<Longrightarrow>
     x \<in> fst (scan kb maxDepth kid depth rest w) \<and>
     x \<notin> k_id ` set (snd (scan kb maxDepth kid depth rest w))"
proof (induction kb maxDepth kid depth w and kb maxDepth kid depth rest w
    rule: traverse_scan.induct)
  case (1 kb maxDepth kid depth visited result)
  then show ?case by auto
next
  case (2 kb maxDepth kid depth w)
  then show ?case by simp
next
  case (3 kb maxDepth kid depth relationship rest visited result)
  show ?case
  proof (cases "neighbor_of kid relationship")
    case None
    with 3 show ?thesis by simp
  next
    case (Some n)
    show ?thesis
    proof (cases "n \<noteq> [] \<and> n \<notin> visited")
      case False
      with 3 Some show ?thesis by auto
    next
      case fresh: True
      show ?thesis
      proof (cases "map_of (kb_items kb) n")
        case None
        with 3 Some fresh show ?thesis by auto
      next
        case (Some neighbor)
        note nb = \<open>neighbor_of kid relationship = Some n\<close>
        have "k_id neighbor = n"
          using "3.prems"(1) Some by (rule items_keyedD)
        with fresh "3.prems" have ok: "x \<in> fst (visited, result @ [neighbor])"
          "x \<notin> k_id ` set (snd (visited, result @ [neighbor]))"
          by auto
        from "3.IH"(3) [OF nb fresh Some "3.prems"(1) ok]
        have "x \<in> fst (traverse kb maxDepth n (depth + 1) (visited, result @ [neighbor]))"
          "x \<notin> k_id ` set (snd (traverse kb maxDepth n (depth + 1) (visited, result @ [neighbor])))"
          by simp_all
        from "3.IH"(4) [OF nb fresh Some "3.prems"(1) this]
        show ?thesis using nb fresh Some by simp
      qed
    qed
  qed
qed


lemma hop_intro:
  "relationship \<in> snd ` set (kb_relationships kb) \<Longrightarrow> neighbor_of a relationship = Some b \<Longrightarrow>
   hop kb a b"
  by (auto simp: hop_def list_ex_iff)

lemma walk_within_hops:
  "items_keyed kb \<Longrightarrow> 0 \<le> depth \<Longrightarrow> reachable_in kb (nat depth) x kid \<Longrightarrow>
   list_all (\<lambda>it. reachable_in kb (nat (maxDepth + 1)) x (k_id it)) (snd w) \<Longrightarrow>
     list_all (\<lambda>it. reachable_in kb (nat (maxDepth + 1)) x (k_id it))
       (snd (traverse kb maxDepth kid depth w))"
  "items_keyed kb \<Longrightarrow> 0 \<le> depth \<Longrightarrow> depth \<le> maxDepth \<Longrightarrow>
   reachable_in kb (nat depth) x kid \<Longrightarrow>
   set rest \<subseteq> snd ` set (kb_relationships kb) \<Longrightarrow>
   list_all (\<lambda>it. reachable_in kb (nat (maxDepth + 1)) x (k_id it)) (snd w) \<Longrightarrow>
     list_all (\<lambda>it. reachable_in kb (nat (maxDepth + 1)) x (k_id it))
       (snd (scan kb maxDepth kid depth rest w))"
proof (induction kb maxDepth kid depth w and kb maxDepth kid depth rest w
    rule: traverse_scan.induct)
  case (1 kb maxDepth kid depth visited result)
  then show ?case by auto
next
  case (2 kb maxDepth kid depth w)
  then show ?case by simp
next
  case (3 kb maxDepth kid depth relationship rest visited result)
  from "3.prems"(5) have rest: "set rest \<subseteq> snd ` set (kb_relationships kb)"
    and rel: "relationship \<in> snd ` set (kb_relationships kb)"
    by auto
  note base = "3.prems"(1,2,3,4) rest
  show ?case
  proof (cases "neighbor_of kid relationship")
    case None
    from "3.IH"(1) [OF None base "3.prems"(6)] None show ?thesis by simp
  next
    case (Some n)
    note nb = Some
    show ?thesis
    proof (cases "n \<noteq> [] \<and> n \<notin> visited")
      case False
      from "3.IH"(5) [OF nb False base "3.prems"(6)] nb False show ?thesis by auto
    next
      case fresh: True
      show ?thesis
      proof (cases "map_of (kb_items kb) n")
        case None
        from "3.IH"(2) [OF nb fresh None base "3.prems"(6)] nb fresh None
        show ?thesis by auto
      next
        case (Some neighbor)
        have id: "k_id neighbor = n"
          using "3.prems"(1) Some by (rule items_keyedD)
        have "hop kb kid n"
          using rel nb by (rule hop_intro)
        with "3.prems"(4) have "reachable_in kb (Suc (nat depth)) x n"
          by auto
        moreover have "Suc (nat depth) = nat (depth + 1)"
          using "3.prems"(2) by simp
        ultimately have reach: "reachable_in kb (nat (depth + 1)) x n"
          by simp
        then have "reachable_in kb (nat (maxDepth + 1)) x n"
          using "3.prems"(3) by (auto intro: reachable_in_mono)
        with "3.prems"(6) id
        have ok: "list_all (\<lambda>it. reachable_in kb (nat (maxDepth + 1)) x (k_id it))
            (snd (visited, result @ [neighbor]))"
          by simp
        have d: "0 \<le> depth + 1" using "3.prems"(2) by simp
        from "3.IH"(3) [OF nb fresh Some "3.prems"(1) d reach ok]
        have "list_all (\<lambda>it. reachable_in kb (nat (maxDepth + 1)) x (k_id it))
            (snd (traverse kb maxDepth n (depth + 1) (visited, result @ [neighbor])))" .
        from "3.IH"(4) [OF nb fresh Some base this]
        show ?thesis using nb fresh Some by simp
      qed
    qed
  qed
qed

text \<open>Swapping the endpoints of relationships.\<close>

definition reversed :: "KnowledgeRelationship \<Rightarrow> KnowledgeRelationship" where
  "reversed rel = rel\<lparr> r_fromId := r_toId rel, r_toId := r_fromId rel \<rparr>"

definition redirect :: "string set \<Rightarrow> KnowledgeBase \<Rightarrow> KnowledgeBase" where
  "redirect S kb =
     kb\<lparr> kb_relationships :=
           map (\<lambda>kv. (fst kv, if fst kv \<in> S then reversed (snd kv) else snd kv))
             (kb_relationships kb) \<rparr>"

lemma neighbor_of_reversed [simp]: "neighbor_of kid (reversed rel) = neighbor_of kid rel"
  by (auto simp: neighbor_of_def reversed_def)

lemma walk_redirect:
  "traverse (redirect S kb) maxDepth kid depth w = traverse kb maxDepth kid depth w"
  "list_all2 (\<lambda>a b. a = b \<or> a = reversed b) rest' rest \<Longrightarrow>
   scan (redirect S kb) maxDepth kid depth rest' w = scan kb maxDepth kid depth rest w"
proof (induction kb maxDepth kid depth w and kb maxDepth kid depth rest w
    arbitrary: and rest' rule: traverse_scan.induct)
  case (1 kb maxDepth kid depth visited result)
  have "list_all2 (\<lambda>a b. a = b \<or> a = reversed b)
      (map snd (kb_relationships (redirect S kb))) (map snd (kb_relationships kb))"
    by (simp add: redirect_def list_all2_map1 list_all2_map2 list_all2_same)
  with 1 show ?case by auto
next
  case (2 kb maxDepth kid depth w)
  then show ?case by simp
next
  case (3 kb maxDepth kid depth relationship rest visited result)
  from "3.prems" obtain r' rs' where rest': "rest' = r' # rs'"
    and r': "r' = relationship \<or> r' = reversed relationship"
    and rs': "list_all2 (\<lambda>a b. a = b \<or> a = reversed b) rs' rest"
    by (auto simp: list_all2_Cons2)
  have nb: "neighbor_of kid r' = neighbor_of kid relationship"
    using r' by auto
  have items: "kb_items (redirect S kb) = kb_items kb"
    by (simp add: redirect_def)
  show ?case
  proof (cases "neighbor_of kid relationship")
    case None
    with "3.IH"(1) [OF None rs'] nb rest' show ?thesis by simp
  next
    case (Some n)
    note s = Some
    show ?thesis
    proof (cases "n \<noteq> [] \<and> n \<notin> visited")
      case False
      with "3.IH"(5) [OF s False rs'] nb rest' s show ?thesis by auto
    next
      case fresh: True
      show ?thesis
      proof (cases "map_of (kb_items kb) n")
        case None
        with "3.IH"(2) [OF s fresh None rs'] nb rest' s fresh items show ?thesis by auto
      next
        case (Some neighbor)
        from "3.IH"(3) [OF s fresh Some] "3.IH"(4) [OF s fresh Some rs']
        show ?thesis using nb rest' s fresh Some items by simp
      qed
    qed
  qed
qed


text \<open>Every knowledge base that the operations build from a new one is keyed by its items'
  ids.\<close>

lemma items_keyed_subset:
  "items_keyed kb \<Longrightarrow> set (kb_items kb') \<subseteq> set (kb_items kb) \<Longrightarrow> items_keyed kb'"
  by (auto simp: items_keyed_def list_all_iff)

lemma items_keyed_update:
  assumes "items_keyed kb" and "kb_items kb' = AList.update (k_id item) item (kb_items kb)"
  shows "items_keyed kb'"
  using assms set_update_subset [of "k_id item" item "kb_items kb"]
  by (auto simp: items_keyed_def list_all_iff)

lemma removeKnowledge_keyed:
  "items_keyed kb \<Longrightarrow> removeKnowledge kid kb = Inr (b, kb') \<Longrightarrow> items_keyed kb'"
  by (erule items_keyed_subset)
    (auto simp: removeKnowledge_def Let_def removeFromTagIndex_def removeFromPatternIndex_def
      AList.delete_eq split: if_splits option.splits)

lemma remove_each_keyed:
  "items_keyed kb \<Longrightarrow> remove_each ks kb = Inr kb' \<Longrightarrow> items_keyed kb'"
proof (induction ks arbitrary: kb)
  case Nil
  then show ?case by simp
next
  case (Cons k ks)
  then show ?case
    by (auto split: sum.splits dest: removeKnowledge_keyed)
qed

lemma addKnowledge_keyed:
  assumes "items_keyed kb" and "addKnowledge item kb = Inr kb'"
  shows "items_keyed kb'"
proof -
  from assms(2) obtain kb1 where
    prune: "(if maxItems (kb_config kb) \<le> int (length (kb_items kb)) then pruneOldItems 1 kb
             else Inr kb) = Inr kb1"
    and items: "kb_items kb' = AList.update (k_id item) item (kb_items kb1)"
    by (auto simp: addKnowledge_def updateTagIndex_def updatePatternIndex_def
        split: if_splits sum.splits)
  from prune assms(1) have "items_keyed kb1"
    by (auto simp: pruneOldItems_def Let_def split: if_splits dest: remove_each_keyed)
  then show ?thesis using items by (rule items_keyed_update)
qed

lemma updateKnowledge_keyed:
  assumes "items_keyed kb" and "updateKnowledge now kid upd kb = Inr (r, kb')"
  shows "items_keyed kb'"
proof (cases "map_of (kb_items kb) kid")
  case None
  with assms show ?thesis by (auto simp: updateKnowledge_def split: if_splits)
next
  case (Some item)
  let ?item = "item
    \<lparr> k_content := (case ku_content upd of Some c \<Rightarrow> c | None \<Rightarrow> k_content item),
      k_structuredData := (case ku_structuredData upd of Some d \<Rightarrow> d | None \<Rightarrow> k_structuredData item),
      k_metadata := (case ku_metadata upd of Some md \<Rightarrow> md | None \<Rightarrow> k_metadata item),
      k_updatedAt := now \<rparr>"
  have "k_id ?item = kid"
    using assms(1) Some by (simp add: items_keyedD)
  moreover have "kb_items kb' = AList.update kid ?item (kb_items kb)"
    using assms(2) Some by (auto simp: updateKnowledge_def Let_def split: if_splits)
  ultimately have "kb_items kb' = AList.update (k_id ?item) ?item (kb_items kb)"
    by simp
  with assms(1) show ?thesis by (rule items_keyed_update)
qed

lemma load_items_keyed: "items_keyed kb \<Longrightarrow> items_keyed (load_items files kb)"
proof (induction files arbitrary: kb)
  case Nil
  then show ?case by simp
next
  case (Cons item files)
  have "items_keyed (updateTagIndex item (updatePatternIndex item
      (kb\<lparr> kb_items := AList.update (k_id item) item (kb_items kb) \<rparr>)))"
    using Cons.prems
    by (rule items_keyed_update) (simp add: updateTagIndex_def updatePatternIndex_def)
  with Cons show ?case by simp
qed

lemma load_relationships_items [simp]:
  "kb_items (load_relationships rels kb) = kb_items kb"
  by (induction rels arbitrary: kb) auto

lemma kb_initialize_keyed:
  "items_keyed (kb_initialize item_files relationship_file (new_KnowledgeBase cfg))"
proof -
  have new: "items_keyed (new_KnowledgeBase cfg)"
    by (simp add: items_keyed_def new_KnowledgeBase_def)
  have "items_keyed (load_relationships relationship_file (load_items item_files (new_KnowledgeBase cfg)))"
    using load_items_keyed [OF new, of item_files]
    by (simp add: items_keyed_def)
  with new show ?thesis
    by (simp add: kb_initialize_def items_keyed_def)
qed

subsection \<open>Test graphs\<close>

definition default_kb_config :: PartialKnowledgeBaseConfig where
  "default_kb_config = \<lparr> pk_dataDir = None, pk_maxItems = None, pk_enablePersistence = None \<rparr>"

definition empty_kb :: "PartialKnowledgeBaseConfig \<Rightarrow> KnowledgeBase" where
  "empty_kb cfg = kb_initialize [] [] (new_KnowledgeBase cfg)"

definition test_item :: "string \<Rightarrow> KnowledgeItem" where
  "test_item kid =
     \<lparr> k_id = kid, k_patternId = ''pattern-1'', k_type = Fact, k_content = ''Item'',
       k_structuredData = [],
       k_metadata = \<lparr> km_confidence = 1, km_sources = [''test''], km_frequency = 1,
                      km_tags = [''common''], km_lastVerified = None \<rparr>,
       k_createdAt = 1000, k_updatedAt = 1000 \<rparr>"

definition test_relationship :: "string \<Rightarrow> string \<Rightarrow> string \<Rightarrow> KnowledgeRelationship" where
  "test_relationship rid a b =
     \<lparr> r_id = rid, r_fromId = a, r_toId = b, r_type = Associative, r_strength = 1,
       r_metadata = None \<rparr>"

text \<open>The knowledge base after \<^verbatim>\<open>addKnowledgeItems(items)\<close> and one \<^verbatim>\<open>addRelationship\<close>
  per relationship, on an empty initialized base.\<close>

definition add_relationships :: "KnowledgeRelationship list \<Rightarrow> KnowledgeBase \<Rightarrow> KnowledgeBase" where
  "add_relationships rels kb =
     fold (\<lambda>rel k. case addRelationship rel k of Inl _ \<Rightarrow> k | Inr k' \<Rightarrow> k') rels kb"

definition graph_kb :: "KnowledgeItem list \<Rightarrow> KnowledgeRelationship list \<Rightarrow> KnowledgeBase" where
  "graph_kb items rels =
     (case addKnowledgeItems items (empty_kb default_kb_config) of
        Inl _ \<Rightarrow> empty_kb default_kb_config
      | Inr kb \<Rightarrow> add_relationships rels kb)"

definition cycle_kb :: KnowledgeBase where
  "cycle_kb =
     graph_kb [test_item ''x'', test_item ''y'']
       [test_relationship ''rel-1'' ''x'' ''y'', test_relationship ''rel-2'' ''y'' ''x'']"

definition chain_kb :: KnowledgeBase where
  "chain_kb =
     graph_kb [test_item ''x'', test_item ''y'', test_item ''z'']
       [test_relationship ''rel-1'' ''x'' ''y'', test_relationship ''rel-2'' ''y'' ''z'',
        test_relationship ''rel-3'' ''z'' ''y'']"

lemma empty_kb_simps:
  "kb_initialized (empty_kb cfg)" "kb_items (empty_kb cfg) = []"
  "kb_relationships (empty_kb cfg) = []"
  "kb_config (empty_kb cfg) = kb_config (new_KnowledgeBase cfg)"
  by (simp_all add: empty_kb_def kb_initialize_def new_KnowledgeBase_def)

lemma cycle_kb_simps:
  "kb_initialized cycle_kb"
  "kb_items cycle_kb = [(''x'', test_item ''x''), (''y'', test_item ''y'')]"
  "kb_relationships cycle_kb =
     [(''rel-1'', test_relationship ''rel-1'' ''x'' ''y''),
      (''rel-2'', test_relationship ''rel-2'' ''y'' ''x'')]"
  by (simp_all add: cycle_kb_def graph_kb_def addKnowledgeItems_def addKnowledge_def
      empty_kb_simps new_KnowledgeBase_def default_kb_config_def add_relationships_def
      addRelationship_def updateTagIndex_def updatePatternIndex_def test_item_def
      test_relationship_def)

lemma chain_kb_simps:
  "kb_initialized chain_kb"
  "kb_items chain_kb = [(''x'', test_item ''x''), (''y'', test_item ''y''), (''z'', test_item ''z'')]"
  "kb_relationships chain_kb =
     [(''rel-1'', test_relationship ''rel-1'' ''x'' ''y''),
      (''rel-2'', test_relationship ''rel-2'' ''y'' ''z''),
      (''rel-3'', test_relationship ''rel-3'' ''z'' ''y'')]"
  by (simp_all add: chain_kb_def graph_kb_def addKnowledgeItems_def addKnowledge_def
      empty_kb_simps new_KnowledgeBase_def default_kb_config_def add_relationships_def
      addRelationship_def updateTagIndex_def updatePatternIndex_def test_item_def
      test_relationship_def)

lemma test_relationship_neighbor [simp]:
  "neighbor_of kid (test_relationship rid a b) =
     (if a = kid then Some b else if b = kid then Some a else None)"
  by (simp add: neighbor_of_def test_relationship_def)

lemma findRelated_cycle: "findRelatedItems ''x'' (Some 0) cycle_kb = Inr [test_item ''y'', test_item ''y'']"
  by (simp add: findRelatedItems_def cycle_kb_simps)

lemma findRelated_chain:
  "findRelatedItems ''x'' (Some 1) chain_kb = Inr [test_item ''y'', test_item ''z'', test_item ''z'']"
  by (simp add: findRelatedItems_def chain_kb_simps)


lemma test_item_id [simp]: "k_id (test_item kid) = kid"
  by (simp add: test_item_def)

lemma items_keyed_test: "items_keyed cycle_kb" "items_keyed chain_kb"
  by (simp_all add: items_keyed_def cycle_kb_simps chain_kb_simps)

text \<open>
  C8 (as stated, refuted). In the cycle of two relationships between \<open>x\<close> and \<open>y\<close>, with
  \<open>maxDepth = 0\<close>, the item \<open>y\<close> is returned twice although it is one hop away. With a
  relationship from \<open>x\<close> to \<open>y\<close> and two between \<open>y\<close> and \<open>z\<close>, and \<open>maxDepth = 1\<close>, the
  item \<open>z\<close> is returned twice although it is two hops away.
\<close>

theorem findRelatedItems_repeats_beyond_depth:
  "findRelatedItems ''x'' (Some 0) cycle_kb = Inr [test_item ''y'', test_item ''y''] \<and>
   \<not> reachable_in cycle_kb 0 ''x'' ''y'' \<and>
   findRelatedItems ''x'' (Some 1) chain_kb =
     Inr [test_item ''y'', test_item ''z'', test_item ''z''] \<and>
   \<not> reachable_in chain_kb 1 ''x'' ''z''"
  by (simp add: findRelated_cycle findRelated_chain hop_def chain_kb_simps)

text \<open>
  C8 (amended). On an initialized knowledge base whose items are stored under their own
  ids, \<^verbatim>\<open>findRelatedItems(x, maxDepth)\<close> returns the same list when the endpoints of any
  relationships are swapped, returns only items within \<open>maxDepth + 1\<close> hops of \<open>x\<close>, and
  never returns \<open>x\<close>.
\<close>

theorem findRelatedItems_undirected_bounded:
  assumes "kb_initialized kb" and "items_keyed kb"
  shows "\<exists>result. findRelatedItems x depth_arg kb = Inr result \<and>
           findRelatedItems x depth_arg (redirect S kb) = Inr result \<and>
           list_all (\<lambda>it. reachable_in kb
                      (nat ((case depth_arg of Some d \<Rightarrow> d | None \<Rightarrow> 2) + 1)) x (k_id it)) result \<and>
           x \<notin> k_id ` set result"
proof -
  define maxDepth where "maxDepth = (case depth_arg of Some d \<Rightarrow> d | None \<Rightarrow> 2)"
  let ?result = "snd (traverse kb maxDepth x 0 ({}, []))"
  have run: "findRelatedItems x depth_arg kb = Inr ?result"
    using assms(1) by (simp add: findRelatedItems_def maxDepth_def)
  have "kb_initialized (redirect S kb)"
    using assms(1) by (simp add: redirect_def)
  then have swapped: "findRelatedItems x depth_arg (redirect S kb) = Inr ?result"
    by (simp add: findRelatedItems_def maxDepth_def walk_redirect(1) del: traverse.simps)
  have hops: "list_all (\<lambda>it. reachable_in kb (nat (maxDepth + 1)) x (k_id it)) ?result"
    by (rule walk_within_hops(1) [OF assms(2)]) simp_all
  have start: "x \<notin> k_id ` set ?result"
  proof (cases "0 > maxDepth")
    case True
    then show ?thesis by simp
  next
    case False
    from walk_excludes_start(2) [OF assms(2), of x "({x}, [])" maxDepth x 0
        "map snd (kb_relationships kb)"]
    show ?thesis using False by simp
  qed
  from run swapped hops start show ?thesis
    unfolding maxDepth_def by blast
qed

theorem findRelatedItems_undirected_bounded_witness:
  "\<exists>result. findRelatedItems ''x'' (Some 1) chain_kb = Inr result \<and>
     findRelatedItems ''x'' (Some 1) (redirect {''rel-1'', ''rel-3''} chain_kb) = Inr result \<and>
     list_all (\<lambda>it. reachable_in chain_kb 2 ''x'' (k_id it)) result \<and>
     ''x'' \<notin> k_id ` set result"
  using findRelatedItems_undirected_bounded [OF chain_kb_simps(1) items_keyed_test(2),
      of "''x''" "Some 1" "{''rel-1'', ''rel-3''}"]
  by simp

subsection \<open>Relationships and removal\<close>

lemma set_fold_delete:
  "set (fold AList.delete ks al) = {kv \<in> set al. fst kv \<notin> set ks}"
  by (induction ks arbitrary: al) (auto simp: AList.delete_eq)

lemma removeKnowledge_True:
  assumes "removeKnowledge kid kb = Inr (True, kb')"
  shows "map_of (kb_items kb') kid = None"
    and "list_all (\<lambda>kv. r_fromId (snd kv) \<noteq> kid \<and> r_toId (snd kv) \<noteq> kid) (kb_relationships kb')"
    and "set (kb_relationships kb') \<subseteq> set (kb_relationships kb)"
  using assms
  by (auto simp: removeKnowledge_def Let_def removeFromTagIndex_def removeFromPatternIndex_def
      set_fold_delete delete_conv' list_all_iff touches_def image_iff
      split: if_splits option.splits)

text \<open>
  C7 (as stated, refuted). As in the repository's own test, a relationship between two ids
  is added to a knowledge base that holds no item at all, and it is stored.
\<close>

theorem addRelationship_without_endpoints:
  "kb_items (empty_kb default_kb_config) = [] \<and>
   (case addRelationship (test_relationship ''rel-1'' ''knowledge-1'' ''knowledge-2'')
           (empty_kb default_kb_config) of
      Inl _ \<Rightarrow> False
    | Inr kb \<Rightarrow>
        getRelationship ''rel-1'' kb =
          Inr (Some (test_relationship ''rel-1'' ''knowledge-1'' ''knowledge-2'')))"
  by (simp add: addRelationship_def getRelationship_def empty_kb_simps test_relationship_def)

text \<open>
  C7 (amended). \<^verbatim>\<open>addRelationship\<close> stores any relationship on an initialized knowledge
  base, whether or not its endpoints exist; \<^verbatim>\<open>removeKnowledge\<close> of an item that exists
  removes the item and every relationship that has its id as \<^verbatim>\<open>fromId\<close> or \<^verbatim>\<open>toId\<close>.
\<close>

theorem addRelationship_unchecked_removeKnowledge_cascades:
  "(kb_initialized kb \<longrightarrow>
      (\<exists>kb'. addRelationship rel kb = Inr kb' \<and>
         map_of (kb_relationships kb') (r_id rel) = Some rel \<and> kb_items kb' = kb_items kb)) \<and>
   (removeKnowledge kid kb = Inr (True, kb'') \<longrightarrow>
      map_of (kb_items kb'') kid = None \<and>
      list_all (\<lambda>kv. r_fromId (snd kv) \<noteq> kid \<and> r_toId (snd kv) \<noteq> kid)
        (kb_relationships kb''))"
  using removeKnowledge_True [of kid kb kb'']
  by (auto simp: addRelationship_def update_conv')

theorem addRelationship_unchecked_removeKnowledge_cascades_witness:
  "(\<exists>kb'. addRelationship (test_relationship ''rel-9'' ''x'' ''nowhere'') cycle_kb = Inr kb' \<and>
      map_of (kb_relationships kb') ''rel-9'' = Some (test_relationship ''rel-9'' ''x'' ''nowhere'') \<and>
      kb_items kb' = kb_items cycle_kb) \<and>
   (\<exists>kb''. removeKnowledge ''x'' cycle_kb = Inr (True, kb'') \<and>
      map_of (kb_items kb'') ''x'' = None \<and> kb_relationships kb'' = [])"
proof -
  obtain kb'' where rm: "removeKnowledge ''x'' cycle_kb = Inr (True, kb'')"
    by (simp add: removeKnowledge_def cycle_kb_simps Let_def)
  from addRelationship_unchecked_removeKnowledge_cascades
    [of cycle_kb "test_relationship ''rel-9'' ''x'' ''nowhere''" "''x''" kb'']
  have a: "\<exists>kb'. addRelationship (test_relationship ''rel-9'' ''x'' ''nowhere'') cycle_kb = Inr kb' \<and>
      map_of (kb_relationships kb') ''rel-9'' = Some (test_relationship ''rel-9'' ''x'' ''nowhere'') \<and>
      kb_items kb' = kb_items cycle_kb"
    and b: "map_of (kb_items kb'') ''x'' = None"
    and c: "list_all (\<lambda>kv. r_fromId (snd kv) \<noteq> ''x'' \<and> r_toId (snd kv) \<noteq> ''x'')
        (kb_relationships kb'')"
    using rm by (simp_all add: cycle_kb_simps test_relationship_def)
  have "set (kb_relationships kb'') \<subseteq> set (kb_relationships cycle_kb)"
    using rm by (rule removeKnowledge_True(3))
  with c have "kb_relationships kb'' = []"
    by (cases "kb_relationships kb''")
      (auto simp: cycle_kb_simps test_relationship_def)
  with a b rm show ?thesis by blast
qed



section \<open>Learning model\<close>

record FeatureMetadata =
  fm_confidence :: int
  fm_frequency :: int
  fm_timestamp :: int

record PatternFeatures =
  f_id :: string
  f_features :: "rat list"
  f_label :: string
  f_metadata :: FeatureMetadata

record LearningModelConfig =
  inputSize :: int
  learningRate :: rat
  batchSize :: int
  epochs :: int
  hiddenLayers :: "int list"
  dropoutRate :: rat

record PartialModelConfig =
  pl_inputSize :: "int option"
  pl_learningRate :: "rat option"
  pl_batchSize :: "int option"
  pl_epochs :: "int option"
  pl_hiddenLayers :: "int list option"
  pl_dropoutRate :: "rat option"

record TrainingData =
  td_features :: "rat list list"
  td_labels :: "nat list list"

text \<open>
  The TensorFlow model is outside the repository. Of a \<^verbatim>\<open>tf.Sequential\<close> the model keeps
  what the class gives it: the layer sizes it was built with and, in place of the weights,
  the calls of \<^verbatim>\<open>fit\<close> made on it so far (data, batch size, epochs).
\<close>

record tf_model =
  tm_inputSize :: int
  tm_hiddenLayers :: "int list"
  tm_units :: nat
  tm_fitted :: "(TrainingData \<times> int \<times> int) list"

record epoch_log =
  el_loss :: "rat option"
  el_accuracy :: "rat option"
  el_timestamp :: int

text \<open>
  What \<^verbatim>\<open>model.fit\<close> does is the environment's choice: it throws after some epochs, or
  it completes and reports the last loss and, if present, the last \<^verbatim>\<open>acc\<close>. Each epoch log
  carries the \<^verbatim>\<open>Date.now()\<close> read in \<^verbatim>\<open>onEpochEnd\<close>.
\<close>

datatype fit_outcome =
    FitThrows "epoch_log list"
  | FitDone "epoch_log list" rat "rat option"

record tf_env =
  tf_compile :: "tf_model \<Rightarrow> bool"
  tf_fit :: "tf_model \<Rightarrow> TrainingData \<Rightarrow> int \<Rightarrow> int \<Rightarrow> fit_outcome"
  tf_predict :: "tf_model \<Rightarrow> rat list \<Rightarrow> (rat \<times> rat list) option"
  tf_save :: "tf_model \<Rightarrow> string \<Rightarrow> bool"

record LearningProgress =
  lp_epoch :: nat
  lp_loss :: rat
  lp_accuracy :: rat
  lp_timestamp :: int

record ModelMetrics =
  mm_accuracy :: rat
  mm_loss :: rat
  mm_timestamp :: int

record LearningModel =
  lm_model :: "tf_model option"
  lm_config :: LearningModelConfig
  lm_isInitialized :: bool
  lm_labelMap :: "string list"
  lm_inverseLabelMap :: "(string \<times> nat) list"
  lm_trainingHistory :: "LearningProgress list"

definition new_LearningModel :: "PartialModelConfig \<Rightarrow> LearningModel" where
  "new_LearningModel cfg =
     \<lparr> lm_model = None,
       lm_config =
         \<lparr> inputSize = (case pl_inputSize cfg of Some n \<Rightarrow> n | None \<Rightarrow> 100),
           learningRate = (case pl_learningRate cfg of Some r \<Rightarrow> r | None \<Rightarrow> 1 / 1000),
           batchSize = (case pl_batchSize cfg of Some n \<Rightarrow> n | None \<Rightarrow> 32),
           epochs = (case pl_epochs cfg of Some n \<Rightarrow> n | None \<Rightarrow> 10),
           hiddenLayers = (case pl_hiddenLayers cfg of Some hs \<Rightarrow> hs | None \<Rightarrow> [64, 32]),
           dropoutRate = (case pl_dropoutRate cfg of Some r \<Rightarrow> r | None \<Rightarrow> 2 / 10) \<rparr>,
       lm_isInitialized = False,
       lm_labelMap = [],
       lm_inverseLabelMap = [],
       lm_trainingHistory = [] \<rparr>"


text \<open>\<^verbatim>\<open>[...new Set(labels)]\<close>: the distinct labels in order of first occurrence.\<close>

definition unique_labels :: "string list \<Rightarrow> string list" where
  "unique_labels labels = fold set_add labels []"

definition buildModel :: "LearningModel \<Rightarrow> tf_model" where
  "buildModel lm =
     \<lparr> tm_inputSize = inputSize (lm_config lm),
       tm_hiddenLayers = hiddenLayers (lm_config lm),
       tm_units = length (lm_labelMap lm),
       tm_fitted = [] \<rparr>"

text \<open>
  \<^verbatim>\<open>initialize\<close>: nothing when already initialized. \<^verbatim>\<open>buildModel\<close> assigns \<^verbatim>\<open>this.model\<close>
  first and then adds and compiles the layers; if TensorFlow rejects them the error
  leaves the model assigned and \<^verbatim>\<open>isInitialized\<close> false.
\<close>

definition lm_initialize :: "tf_env \<Rightarrow> PatternFeatures list \<Rightarrow> LearningModel \<Rightarrow> error option \<times> LearningModel" where
  "lm_initialize env features lm =
     (if lm_isInitialized lm then (None, lm)
      else
        let cfg = (case features of
                     [] \<Rightarrow> lm_config lm
                   | f # _ \<Rightarrow> (lm_config lm)\<lparr> inputSize := int (length (f_features f)) \<rparr>);
            uniqueLabels = unique_labels (map f_label features);
            lm1 = lm\<lparr> lm_config := cfg, lm_labelMap := uniqueLabels,
                       lm_inverseLabelMap := zip uniqueLabels [0 ..< length uniqueLabels] \<rparr>;
            lm2 = lm1\<lparr> lm_model := Some (buildModel lm1) \<rparr>
        in if tf_compile env (buildModel lm1) then (None, lm2\<lparr> lm_isInitialized := True \<rparr>)
           else (Some TfError, lm2))"

definition dispose :: "LearningModel \<Rightarrow> LearningModel" where
  "dispose lm = lm\<lparr> lm_model := None, lm_isInitialized := False \<rparr>"

text \<open>
  \<^verbatim>\<open>prepareTrainingData\<close>: a label that is not in \<^verbatim>\<open>inverseLabelMap\<close> gets index 0
  (\<^verbatim>\<open>?? 0\<close>). \<^verbatim>\<open>oneHot[index] = 1\<close> on an array too short for the index extends it.
\<close>

definition one_hot :: "nat \<Rightarrow> nat \<Rightarrow> nat list" where
  "one_hot n index =
     (if index < n then (replicate n 0)[index := 1]
      else replicate index 0 @ [1])"

definition prepareTrainingData :: "PatternFeatures list \<Rightarrow> LearningModel \<Rightarrow> TrainingData" where
  "prepareTrainingData patterns lm =
     \<lparr> td_features = map f_features patterns,
       td_labels =
         map (\<lambda>p. one_hot (length (lm_labelMap lm))
                     (case map_of (lm_inverseLabelMap lm) (f_label p) of
                        Some index \<Rightarrow> index
                      | None \<Rightarrow> 0))
           patterns \<rparr>"

definition progress_of :: "nat \<Rightarrow> epoch_log \<Rightarrow> LearningProgress" where
  "progress_of epoch entry =
     \<lparr> lp_epoch = epoch + 1,
       lp_loss = (case el_loss entry of Some l \<Rightarrow> l | None \<Rightarrow> 0),
       lp_accuracy = (case el_accuracy entry of Some a \<Rightarrow> a | None \<Rightarrow> 0),
       lp_timestamp = el_timestamp entry \<rparr>"

definition history_of :: "epoch_log list \<Rightarrow> LearningProgress list" where
  "history_of logs = map (\<lambda>(epoch, entry). progress_of epoch entry) (zip [0 ..< length logs] logs)"

definition fitted :: "TrainingData \<Rightarrow> int \<Rightarrow> int \<Rightarrow> tf_model \<Rightarrow> tf_model" where
  "fitted d b e m = m\<lparr> tm_fitted := tm_fitted m @ [(d, b, e)] \<rparr>"

definition train ::
  "tf_env \<Rightarrow> int \<Rightarrow> PatternFeatures list \<Rightarrow> LearningModel
     \<Rightarrow> (error + ModelMetrics) \<times> LearningModel" where
  "train env now patterns lm =
     (case lm_model lm of
        None \<Rightarrow> (Inl (NotInitialized LearningModelC), lm)
      | Some model \<Rightarrow>
          if \<not> lm_isInitialized lm then (Inl (NotInitialized LearningModelC), lm)
          else
            let d = prepareTrainingData patterns lm;
                b = batchSize (lm_config lm);
                e = epochs (lm_config lm);
                lm1 = lm\<lparr> lm_trainingHistory := [], lm_model := Some (fitted d b e model) \<rparr>
            in case tf_fit env model d b e of
                 FitThrows logs \<Rightarrow>
                   (Inl TfError, lm1\<lparr> lm_trainingHistory := history_of logs \<rparr>)
               | FitDone logs loss acc \<Rightarrow>
                   (Inr \<lparr> mm_accuracy = (case acc of Some a \<Rightarrow> a | None \<Rightarrow> 0),
                          mm_loss = loss, mm_timestamp = now \<rparr>,
                    lm1\<lparr> lm_trainingHistory := history_of logs \<rparr>))"

definition updateModel ::
  "tf_env \<Rightarrow> int \<Rightarrow> PatternFeatures list \<Rightarrow> bool \<Rightarrow> LearningModel
     \<Rightarrow> (error + ModelMetrics) \<times> LearningModel" where
  "updateModel env now patterns incremental lm =
     (case lm_model lm of
        None \<Rightarrow> (Inl (NotInitialized LearningModelC), lm)
      | Some model \<Rightarrow>
          if \<not> lm_isInitialized lm then (Inl (NotInitialized LearningModelC), lm)
          else if incremental then
            let d = prepareTrainingData patterns lm;
                b = batchSize (lm_config lm);
                e = max 1 (epochs (lm_config lm) div 2);
                lm1 = lm\<lparr> lm_model := Some (fitted d b e model) \<rparr>
            in case tf_fit env model d b e of
                 FitThrows logs \<Rightarrow> (Inl TfError, lm1)
               | FitDone logs loss acc \<Rightarrow>
                   (Inr \<lparr> mm_accuracy = (case acc of Some a \<Rightarrow> a | None \<Rightarrow> 0),
                          mm_loss = loss, mm_timestamp = now \<rparr>,
                    lm1)
          else train env now patterns lm)"














text \<open>
  \<^verbatim>\<open>createFeaturesFromPattern\<close>: numbers pass, booleans become 0 or 1, a string becomes
  its rolling hash modulo 1000 over 1000, other values are skipped; the vector is cut or
  padded with zeros to the size \<open>n\<close>.
\<close>

definition feature_of :: "json \<Rightarrow> rat list" where
  "feature_of v =
     (case v of
        JNum n \<Rightarrow> [of_int n]
      | JBool b \<Rightarrow> [if b then 1 else 0]
      | JStr s \<Rightarrow> [of_int (\<bar>foldl hash_step 0 s\<bar> mod 1000) / 1000]
      | _ \<Rightarrow> [])"

definition createFeaturesFromPattern :: "jobject \<Rightarrow> nat \<Rightarrow> rat list" where
  "createFeaturesFromPattern pattern n =
     (let flatValues = concat (map (\<lambda>kv. feature_of (snd kv)) pattern)
      in if length flatValues \<ge> n then take n flatValues
         else flatValues @ replicate (n - length flatValues) 0)"


section \<open>Memory storage system\<close>

record MemoryStorageSystem =
  patternStorage :: PatternStorage
  learningModel :: LearningModel
  knowledgeBase :: KnowledgeBase

record SystemConfig =
  patternDataDir :: "string option"
  knowledgeDataDir :: "string option"
  modelConfig :: "PartialModelConfig option"

definition new_MemoryStorageSystem :: "SystemConfig \<Rightarrow> MemoryStorageSystem" where
  "new_MemoryStorageSystem cfg =
     \<lparr> patternStorage =
         new_PatternStorage
           \<lparr> pc_dataDir = Some (case patternDataDir cfg of Some d \<Rightarrow> d | None \<Rightarrow> ''./data/patterns''),
             pc_maxVersions = None, pc_defaultExpirationDays = None \<rparr>,
       learningModel =
         new_LearningModel
           (case modelConfig cfg of
              Some c \<Rightarrow> c
            | None \<Rightarrow> \<lparr> pl_inputSize = None, pl_learningRate = None, pl_batchSize = None,
                        pl_epochs = None, pl_hiddenLayers = None, pl_dropoutRate = None \<rparr>),
       knowledgeBase =
         new_KnowledgeBase
           \<lparr> pk_dataDir = Some (case knowledgeDataDir cfg of Some d \<Rightarrow> d | None \<Rightarrow> ''./data/knowledge''),
             pk_maxItems = None, pk_enablePersistence = None \<rparr> \<rparr>"

definition features_of :: "Pattern \<Rightarrow> PatternFeatures" where
  "features_of p =
     \<lparr> f_id = p_id p,
       f_features = createFeaturesFromPattern (p_data p) 100,
       f_label = p_type p,
       f_metadata = \<lparr> fm_confidence = confidence (p_metadata p),
                      fm_frequency = frequency (p_metadata p),
                      fm_timestamp = p_createdAt p \<rparr> \<rparr>"

definition empty_query :: PatternQuery where
  "empty_query =
     \<lparr> q_type = None, q_tags = None, q_minConfidence = None, q_minFrequency = None,
       q_createdAfter = None, q_createdBefore = None, q_notExpired = None \<rparr>"

text \<open>What the environment supplies to one \<^verbatim>\<open>addPattern\<close>: the clock readings of the calls
  it makes, the extraction's environment and TensorFlow.\<close>

record add_env =
  a_now :: int
  a_vnow :: int
  a_extraction :: extraction_env
  a_updateNow :: int
  a_queryNow :: int
  a_trainNow :: int
  a_tf :: tf_env

fun relate_each :: "KnowledgeRelationship list \<Rightarrow> KnowledgeBase \<Rightarrow> error + KnowledgeBase" where
  "relate_each [] kb = Inr kb"
| "relate_each (rel # rels) kb =
     (case addRelationship rel kb of
        Inl e \<Rightarrow> Inl e
      | Inr kb' \<Rightarrow> relate_each rels kb')"

text \<open>
  The \<^verbatim>\<open>catch\<close> block of \<^verbatim>\<open>addPattern\<close>: the features of every pattern in the store,
  \<^verbatim>\<open>dispose\<close>, \<^verbatim>\<open>initialize\<close>, \<^verbatim>\<open>train\<close>. An error in it reaches the caller.
\<close>

definition rebuild :: "add_env \<Rightarrow> MemoryStorageSystem \<Rightarrow> error option \<times> MemoryStorageSystem" where
  "rebuild env sys =
     (case queryPatterns (a_queryNow env) empty_query (patternStorage sys) of
        Inl e \<Rightarrow> (Some e, sys)
      | Inr allPatterns \<Rightarrow>
          let allFeatures = map features_of allPatterns
          in case lm_initialize (a_tf env) allFeatures (dispose (learningModel sys)) of
               (Some e, lm) \<Rightarrow> (Some e, sys\<lparr> learningModel := lm \<rparr>)
             | (None, lm) \<Rightarrow>
                 (case train (a_tf env) (a_trainNow env) allFeatures lm of
                    (Inl e, lm') \<Rightarrow> (Some e, sys\<lparr> learningModel := lm' \<rparr>)
                  | (Inr _, lm') \<Rightarrow> (None, sys\<lparr> learningModel := lm' \<rparr>)))"

text \<open>
  \<^verbatim>\<open>addPattern\<close>: the error it throws, if any, and the system it leaves. What the store
  and the knowledge base were given before a later step throws stays.
\<close>

definition addPattern ::
  "add_env \<Rightarrow> PatternCandidate \<Rightarrow> MemoryStorageSystem \<Rightarrow> error option \<times> MemoryStorageSystem" where
  "addPattern env pattern sys =
     (case savePattern (a_now env) (a_vnow env) pattern (patternStorage sys) of
        Inl e \<Rightarrow> (Some e, sys)
      | Inr (savedPattern, store) \<Rightarrow>
          let sys1 = sys\<lparr> patternStorage := store \<rparr>;
              extraction = extractKnowledge (a_extraction env) savedPattern
          in case addKnowledgeItems (extractedItems extraction) (knowledgeBase sys1) of
               Inl e \<Rightarrow> (Some e, sys1)
             | Inr kb1 \<Rightarrow>
                 (case relate_each (relationships extraction) kb1 of
                    Inl e \<Rightarrow> (Some e, sys1\<lparr> knowledgeBase := kb1 \<rparr>)
                  | Inr kb2 \<Rightarrow>
                      let sys2 = sys1\<lparr> knowledgeBase := kb2 \<rparr>
                      in case updateModel (a_tf env) (a_updateNow env) [features_of savedPattern]
                                True (learningModel sys2) of
                           (Inr _, lm) \<Rightarrow> (None, sys2\<lparr> learningModel := lm \<rparr>)
                         | (Inl _, lm) \<Rightarrow> rebuild env (sys2\<lparr> learningModel := lm \<rparr>)))"

text \<open>\<^verbatim>\<open>MemoryStorageSystem.initialize\<close>, given the content of the two data directories.\<close>

definition ms_initialize ::
  "tf_env \<Rightarrow> (Pattern \<times> PatternVersion list option) list \<Rightarrow> int
     \<Rightarrow> KnowledgeItem list \<Rightarrow> KnowledgeRelationship list \<Rightarrow> int
     \<Rightarrow> MemoryStorageSystem \<Rightarrow> error option \<times> MemoryStorageSystem" where
  "ms_initialize tf pattern_files now item_files relationship_file qnow sys =
     (case initialize pattern_files now (patternStorage sys) of
        (Some e, store) \<Rightarrow> (Some e, sys\<lparr> patternStorage := store \<rparr>)
      | (None, store) \<Rightarrow>
          let sys1 = sys\<lparr> patternStorage := store,
                          knowledgeBase :=
                            kb_initialize item_files relationship_file (knowledgeBase sys) \<rparr>
          in case queryPatterns qnow empty_query store of
               Inl e \<Rightarrow> (Some e, sys1)
             | Inr allPatterns \<Rightarrow>
                 if length allPatterns > 0 then
                   (case lm_initialize tf (map features_of allPatterns) (learningModel sys1) of
                      (err, lm) \<Rightarrow> (err, sys1\<lparr> learningModel := lm \<rparr>))
                 else (None, sys1))"

section \<open>Memory storage system: the claims\<close>

lemma extractKnowledge_items:
  "extractedItems (extractKnowledge env p) = [] \<or>
   (\<exists>item. extractedItems (extractKnowledge env p) = [item] \<and> k_id item = generateKnowledgeId env)"
  by (simp add: extractKnowledge_def extractBehavioralKnowledge_def extractTemporalKnowledge_def
      extractSequentialKnowledge_def extractCategoricalKnowledge_def extractGenericKnowledge_def
      extracted_item_def Let_def)

lemma extractKnowledge_relationships:
  "relationships (extractKnowledge env p) = []"
  using extractKnowledge_items [of env p]
  by (auto simp: extractKnowledge_def Let_def)












lemma removeKnowledge_total:
  "kb_initialized kb \<Longrightarrow>
   \<exists>b kb'. removeKnowledge kid kb = Inr (b, kb') \<and> kb_initialized kb'"
  by (auto simp: removeKnowledge_def Let_def removeFromTagIndex_def removeFromPatternIndex_def
      split: option.splits)

lemma remove_each_total:
  "kb_initialized kb \<Longrightarrow> \<exists>kb'. remove_each ks kb = Inr kb' \<and> kb_initialized kb'"
proof (induction ks arbitrary: kb)
  case Nil
  then show ?case by simp
next
  case (Cons k ks)
  from removeKnowledge_total [OF Cons.prems, of k] obtain b kb1
    where "removeKnowledge k kb = Inr (b, kb1)" "kb_initialized kb1" by blast
  with Cons.IH [of kb1] show ?case by simp
qed

lemma addKnowledge_total:
  assumes "kb_initialized kb"
  shows "\<exists>kb'. addKnowledge item kb = Inr kb' \<and> kb_initialized kb' \<and>
           map_of (kb_items kb') (k_id item) = Some item"
proof -
  have "\<exists>kb1. pruneOldItems 1 kb = Inr kb1 \<and> kb_initialized kb1"
    using remove_each_total [OF assms] by (simp add: pruneOldItems_def Let_def)
  then obtain kb1 where
    "(if maxItems (kb_config kb) \<le> int (length (kb_items kb)) then pruneOldItems 1 kb else Inr kb)
       = Inr kb1" "kb_initialized kb1"
    using assms by (cases "maxItems (kb_config kb) \<le> int (length (kb_items kb))") auto
  with assms show ?thesis
    by (simp add: addKnowledge_def updateTagIndex_def updatePatternIndex_def update_conv')
qed




subsection \<open>A test system\<close>

definition tf_succeeds :: tf_env where
  "tf_succeeds =
     \<lparr> tf_compile = (\<lambda>m. True),
       tf_fit = (\<lambda>m d b e. FitDone [] 0 None),
       tf_predict = (\<lambda>m x. None),
       tf_save = (\<lambda>m path. True) \<rparr>"

definition test_extraction_env :: "int \<Rightarrow> string \<Rightarrow> extraction_env" where
  "test_extraction_env now random =
     \<lparr> e_idNow = now, e_idRandom = random, e_lastVerified = now, e_createdAt = now,
       e_updatedAt = now, e_relationshipId = (\<lambda>i j. ''rel-'' @ number_to_string now) \<rparr>"

definition test_add_env :: "int \<Rightarrow> string \<Rightarrow> add_env" where
  "test_add_env now random =
     \<lparr> a_now = now, a_vnow = now, a_extraction = test_extraction_env now random,
       a_updateNow = now, a_queryNow = now, a_trainNow = now, a_tf = tf_succeeds \<rparr>"

definition default_system_config :: SystemConfig where
  "default_system_config = \<lparr> patternDataDir = None, knowledgeDataDir = None, modelConfig = None \<rparr>"

text \<open>The system after \<^verbatim>\<open>initialize()\<close> on two data directories with the given content.\<close>

definition test_system :: "(Pattern \<times> PatternVersion list option) list \<Rightarrow> MemoryStorageSystem" where
  "test_system pattern_files =
     snd (ms_initialize tf_succeeds pattern_files 5000 [] [] 5000
            (new_MemoryStorageSystem default_system_config))"


lemma empty_query_matches [simp]: "query_matches now empty_query p"
  by (simp add: query_matches_def empty_query_def)








subsection \<open>Operations before initialize\<close>







subsection \<open>A new label\<close>

definition stored_pattern :: "string \<Rightarrow> Pattern" where
  "stored_pattern ty =
     \<lparr> p_id = ty @ ''-1'', p_type = ty, p_data = [], p_metadata = test_metadata,
       p_createdAt = 1000, p_updatedAt = 1000, p_expiresAt = None \<rparr>"

definition candidate_of_type :: "string \<Rightarrow> PatternCandidate" where
  "candidate_of_type ty =
     \<lparr> c_type = ty, c_data = [], c_metadata = test_metadata, c_expiresAt = None \<rparr>"

definition two_label_system :: MemoryStorageSystem where
  "two_label_system = test_system [(stored_pattern ''a'', None), (stored_pattern ''b'', None)]"

lemma candidate_of_type_fields [simp]:
  "c_type (candidate_of_type ty) = ty" "c_data (candidate_of_type ty) = []"
  "c_metadata (candidate_of_type ty) = test_metadata" "c_expiresAt (candidate_of_type ty) = None"
  by (simp_all add: candidate_of_type_def)

lemma candidate_c_id: "generatePatternId (candidate_of_type ''c'') = ''c-805f3f4''"
  by code_simp

lemma no_features [simp]: "createFeaturesFromPattern [] 100 = replicate 100 0"
  by (simp add: createFeaturesFromPattern_def)

lemma two_label_system_simps:
  "ps_initialized (patternStorage two_label_system)"
  "ps_patterns (patternStorage two_label_system) =
     [(''a-1'', stored_pattern ''a''), (''b-1'', stored_pattern ''b'')]"
  "kb_initialized (knowledgeBase two_label_system)"
  "kb_items (knowledgeBase two_label_system) = []"
  "maxItems (kb_config (knowledgeBase two_label_system)) = 10000"
  "lm_isInitialized (learningModel two_label_system)"
  "lm_labelMap (learningModel two_label_system) = [''a'', ''b'']"
  "lm_inverseLabelMap (learningModel two_label_system) = [(''a'', 0), (''b'', 1)]"
  "lm_model (learningModel two_label_system) =
     Some \<lparr> tm_inputSize = 100, tm_hiddenLayers = [64, 32], tm_units = 2, tm_fitted = [] \<rparr>"
  "epochs (lm_config (learningModel two_label_system)) = 10"
  by (simp_all add: two_label_system_def test_system_def ms_initialize_def
      new_MemoryStorageSystem_def initialize_def cleanExpiredPatterns_def new_PatternStorage_def
      kb_initialize_def new_KnowledgeBase_def queryPatterns_def default_system_config_def
      Let_def stored_pattern_def expired_def lm_initialize_def new_LearningModel_def
      features_of_def unique_labels_def set_add_def buildModel_def tf_succeeds_def
      upt_rec_numeral)

text \<open>
  C2 (the code at the failing input). The store holds a pattern of type \<open>a\<close> and one of
  type \<open>b\<close>, the classifier was initialized on them, and TensorFlow's \<^verbatim>\<open>fit\<close> succeeds.
  \<^verbatim>\<open>addPattern\<close> of a pattern of type \<open>c\<close> returns without error; the label set is still
  \<open>a, b\<close>, the model is the one built for two classes, and its one \<^verbatim>\<open>fit\<close> is the
  incremental pass (5 epochs) on the new pattern labelled as class 0, that is \<open>a\<close>.
\<close>

theorem new_label_trained_as_first_class:
  "lm_labelMap (learningModel two_label_system) = [''a'', ''b''] \<and>
   (case addPattern (test_add_env 6000 ''q7w8e9r0t'') (candidate_of_type ''c'') two_label_system of
      (Some e, sys') \<Rightarrow> False
    | (None, sys') \<Rightarrow>
        map (\<lambda>kv. p_type (snd kv)) (ps_patterns (patternStorage sys')) = [''a'', ''b'', ''c''] \<and>
        lm_labelMap (learningModel sys') = [''a'', ''b''] \<and>
        (case lm_model (learningModel sys') of
           None \<Rightarrow> False
         | Some m \<Rightarrow>
             tm_units m = 2 \<and>
             map (\<lambda>(d, b, e). (td_labels d, e)) (tm_fitted m) = [([[1, 0 :: nat]], 5 :: int)]))"
proof -
  let ?env = "test_add_env 6000 ''q7w8e9r0t''"
  have env: "a_now ?env = 6000" "a_vnow ?env = 6000" "a_tf ?env = tf_succeeds"
    "a_updateNow ?env = 6000"
    by (simp_all add: test_add_env_def)
  obtain saved store where
    save: "savePattern 6000 6000 (candidate_of_type ''c'') (patternStorage two_label_system) =
      Inr (saved, store)"
    and saved: "p_type saved = ''c''" "p_data saved = []"
    and store: "map (\<lambda>kv. p_type (snd kv)) (ps_patterns store) = [''a'', ''b'', ''c'']"
    by (simp add: savePattern_def two_label_system_simps candidate_c_id Let_def
        stored_pattern_def)
  have ex: "extractedItems (extractKnowledge (a_extraction ?env) saved) =
      [extractGenericKnowledge (a_extraction ?env) saved]"
    "relationships (extractKnowledge (a_extraction ?env) saved) = []"
    by (simp_all add: extractKnowledge_def saved Let_def)
  from addKnowledge_total [OF two_label_system_simps(3),
      of "extractGenericKnowledge (a_extraction ?env) saved"]
  obtain kb1 where
    add1: "addKnowledge (extractGenericKnowledge (a_extraction ?env) saved)
        (knowledgeBase two_label_system) = Inr kb1"
    by blast
  then have add: "addKnowledgeItems [extractGenericKnowledge (a_extraction ?env) saved]
        (knowledgeBase two_label_system) = Inr kb1"
    by (simp add: addKnowledgeItems_def two_label_system_simps)
  obtain mm lm' where
    update: "updateModel tf_succeeds 6000 [features_of saved] True
        (learningModel two_label_system) = (Inr mm, lm')"
    and labels: "lm_labelMap lm' = [''a'', ''b'']"
    and model: "\<exists>m. lm_model lm' = Some m \<and> tm_units m = 2 \<and>
        map (\<lambda>(d, b, e). (td_labels d, e)) (tm_fitted m) = [([[1, 0 :: nat]], 5 :: int)]"
    by (simp add: updateModel_def two_label_system_simps Let_def prepareTrainingData_def
        features_of_def saved one_hot_def fitted_def tf_succeeds_def)
  from model obtain m where m: "lm_model lm' = Some m" "tm_units m = 2"
    "map (\<lambda>(d, b, e). (td_labels d, e)) (tm_fitted m) = [([[1, 0 :: nat]], 5 :: int)]" by auto
  show ?thesis
    by (simp add: addPattern_def env save ex add Let_def update two_label_system_simps(7) store
        labels m)
qed


text \<open>
  The fallback itself does what its comment says: whatever TensorFlow answers, it leaves
  a label set that is the types of all patterns in the store, on a model built anew for
  that many classes and fitted at most once, on the features of all of them.
\<close>

lemma rebuild_uses_whole_store:
  assumes "ps_initialized (patternStorage sys)"
  shows "lm_labelMap (learningModel (snd (rebuild env sys))) =
           unique_labels (map (\<lambda>kv. p_type (snd kv)) (ps_patterns (patternStorage sys)))"
    and "lm_model (learningModel (snd (rebuild env sys))) = Some m \<Longrightarrow>
           tm_units m = length (lm_labelMap (learningModel (snd (rebuild env sys)))) \<and>
           (tm_fitted m = [] \<or>
            map (\<lambda>(d, b, e). td_features d) (tm_fitted m) =
              [map (\<lambda>kv. f_features (features_of (snd kv))) (ps_patterns (patternStorage sys))])"
  using assms
  by (auto simp: rebuild_def queryPatterns_def Let_def lm_initialize_def dispose_def train_def
      buildModel_def fitted_def prepareTrainingData_def features_of_def comp_def
      split: prod.splits option.splits sum.splits if_splits fit_outcome.splits list.splits)

lemma addPattern_falls_back_on_error:
  assumes "savePattern (a_now env) (a_vnow env) c (patternStorage sys) = Inr (saved, store)"
    and "addKnowledgeItems (extractedItems (extractKnowledge (a_extraction env) saved))
           (knowledgeBase sys) = Inr kb"
    and "updateModel (a_tf env) (a_updateNow env) [features_of saved] True (learningModel sys) =
           (Inl e, lm)"
  shows "addPattern env c sys =
           rebuild env (sys\<lparr> patternStorage := store, knowledgeBase := kb, learningModel := lm \<rparr>)"
  using assms by (simp add: addPattern_def Let_def extractKnowledge_relationships)


end
